theory Spec2Isabelle
  imports Main "HOL-Library.Sublist"
begin

section \<open>Data model\<close>

text \<open>
  The loan service (\<^verbatim>\<open>src/services/loanService.js\<close>) works on four MongoDB
  collections through Mongoose models. A collection is a list of documents, each with a
  unique \<^verbatim>\<open>_id\<close>. Dates are milliseconds since the epoch. An argument that the
  source tests with \<^verbatim>\<open>!x\<close> is an option: \<open>None\<close> is the absent (falsy) value.
\<close>

type_synonym oid = nat
type_synonym fecha = int

datatype estado = Pendiente | Aprobado | Rechazado | Aplazado | Devuelto

record loan =
  loan_id :: oid
  usuario :: oid
  item :: oid
  aula :: oid
  cantidad_prestamo :: int
  estado :: estado
  fecha_prestamo :: "fecha option"
  fecha_estimada :: "fecha option"
  fecha_retorno :: "fecha option"
  createdAt :: fecha

record item =
  item_id :: oid
  nombre :: string
  cantidad_disponible :: int
  cantidad_total_stock :: int

record user =
  user_id :: oid
  user_nombre :: string
  email :: "string option"
  rol :: string

record classroom =
  aula_id :: oid
  aula_nombre :: string

record db =
  loans :: "loan list"
  items :: "item list"
  users :: "user list"
  aulas :: "classroom list"

text \<open>
  The errors the service throws, \<^verbatim>\<open>Object.assign(new Error(msg), { status })\<close>,
  named by the kind of failure:
  \<^item> \<open>NotFound\<close>: status 404, loan or item missing;
  \<^item> \<open>InvalidState\<close>: status 400, the loan is not in a state that allows the operation;
  \<^item> \<open>ValidationError\<close>: status 400, a required date is missing;
  \<^item> \<open>InsufficientStock\<close>: status 400, \<^verbatim>\<open>Stock insuficiente\<close>;
  \<^item> \<open>Forbidden\<close>: status 403, \<^verbatim>\<open>No autorizado\<close>;
  \<^item> \<open>TypeError\<close>: the JavaScript runtime error of reading a property of
    \<^verbatim>\<open>null\<close>; it has no \<^verbatim>\<open>status\<close>.
\<close>

datatype error = NotFound | InvalidState | ValidationError | InsufficientStock | Forbidden
  | TypeError

fun status :: "error \<Rightarrow> nat option" where
  "status NotFound = Some 404"
| "status InvalidState = Some 400"
| "status ValidationError = Some 400"
| "status InsufficientStock = Some 400"
| "status Forbidden = Some 403"
| "status TypeError = None"

subsection \<open>The datastore\<close>

text \<open>
  \<^verbatim>\<open>Model.findById\<close> returns the document with the given \<^verbatim>\<open>_id\<close> or
  \<^verbatim>\<open>null\<close>; \<^verbatim>\<open>doc.save()\<close> overwrites the stored document that has the
  \<^verbatim>\<open>_id\<close> of \<^verbatim>\<open>doc\<close>.
\<close>

definition findLoan :: "oid \<Rightarrow> db \<Rightarrow> loan option" where
  "findLoan k d = find (\<lambda>l. loan_id l = k) (loans d)"

definition findItem :: "oid \<Rightarrow> db \<Rightarrow> item option" where
  "findItem k d = find (\<lambda>i. item_id i = k) (items d)"

definition findUser :: "oid \<Rightarrow> db \<Rightarrow> user option" where
  "findUser k d = find (\<lambda>u. user_id u = k) (users d)"

definition findAula :: "oid \<Rightarrow> db \<Rightarrow> classroom option" where
  "findAula k d = find (\<lambda>a. aula_id a = k) (aulas d)"

definition save_loan :: "loan \<Rightarrow> db \<Rightarrow> db" where
  "save_loan l d = d\<lparr>loans := map (\<lambda>x. if loan_id x = loan_id l then l else x) (loans d)\<rparr>"

definition save_item :: "item \<Rightarrow> db \<Rightarrow> db" where
  "save_item i d = d\<lparr>items := map (\<lambda>x. if item_id x = item_id i then i else x) (items d)\<rparr>"

section \<open>The loan service\<close>

text \<open>
  Each operation takes the datastore and returns the datastore afterwards together with
  the error it throws (\<open>Inl\<close>) or the loan it returns (\<open>Inr\<close>). The current time,
  \<^verbatim>\<open>new Date()\<close>, is the argument \<open>now\<close>. The mail that \<^verbatim>\<open>approveLoan\<close>,
  \<^verbatim>\<open>returnLoan\<close> and \<^verbatim>\<open>delayLoan\<close> hand to \<^verbatim>\<open>setImmediate\<close> runs after the
  function has returned, inside its own \<^verbatim>\<open>try\<close>, and writes nothing to the datastore.
\<close>

subsection \<open>approveLoan\<close>

text \<open>
  \<^verbatim>\<open>approveLoan\<close> in two parts. The first, lines 53 to 67, reads the loan and the item
  and runs the guards; it writes nothing, and what it hands on are the in-memory documents
  and the date.
\<close>

definition approveLoan_read :: "db \<Rightarrow> oid \<Rightarrow> fecha option \<Rightarrow> error + (loan \<times> item \<times> fecha)" where
  "approveLoan_read d loanId fechaEstimada =
     (case findLoan loanId d of
        None \<Rightarrow> Inl NotFound
      | Some l \<Rightarrow>
          if estado l \<noteq> Pendiente then Inl InvalidState
          else (case fechaEstimada of
                  None \<Rightarrow> Inl ValidationError
                | Some f \<Rightarrow>
                    (case findItem (item l) d of
                       None \<Rightarrow> Inl NotFound
                     | Some i \<Rightarrow>
                         if cantidad_prestamo l > cantidad_disponible i
                         then Inl InsufficientStock
                         else Inr (l, i, f))))"

text \<open>
  The second part, lines 69 to 84, works on the in-memory documents \<open>l\<close> and \<open>i\<close> of
  the first part and on the datastore as it is by then: the loan is saved as approved, the
  stock is decremented on the in-memory item (the item is not read again), and a negative
  result reverts and saves the loan again and throws, before \<^verbatim>\<open>item.save()\<close>. The
  result is the datastore afterwards with the error thrown or the loan returned. Every
  \<^verbatim>\<open>await\<close> of the function is a point where another request can run; a request that
  runs between the two parts changes the datastore of the second part and not its
  in-memory documents.
\<close>

definition approveLoan_commit :: "db \<Rightarrow> loan \<Rightarrow> item \<Rightarrow> fecha \<Rightarrow> fecha \<Rightarrow> db \<times> (error + loan)" where
  "approveLoan_commit d l i fechaEstimada now =
     (let l1 = l\<lparr>estado := Aprobado, fecha_prestamo := Some now,
                 fecha_estimada := Some fechaEstimada\<rparr>;
          d1 = save_loan l1 d;
          i1 = i\<lparr>cantidad_disponible := cantidad_disponible i - cantidad_prestamo l1\<rparr>
      in if cantidad_disponible i1 < 0 then
           (let l2 = l1\<lparr>estado := Pendiente, fecha_prestamo := None, fecha_estimada := None\<rparr>
            in (save_loan l2 d1, Inl InsufficientStock))
         else (save_item i1 d1, Inr l1))"

text \<open>A call that no other request interleaves with: both parts on one datastore.\<close>

definition approveLoan :: "db \<Rightarrow> oid \<Rightarrow> fecha option \<Rightarrow> fecha \<Rightarrow> db \<times> (error + loan)" where
  "approveLoan d loanId fechaEstimada now =
     (case findLoan loanId d of
        None \<Rightarrow> (d, Inl NotFound)
      | Some l \<Rightarrow>
          if estado l \<noteq> Pendiente then (d, Inl InvalidState)
          else (case fechaEstimada of
                  None \<Rightarrow> (d, Inl ValidationError)
                | Some f \<Rightarrow>
                    (case findItem (item l) d of
                       None \<Rightarrow> (d, Inl NotFound)
                     | Some i \<Rightarrow>
                         if cantidad_prestamo l > cantidad_disponible i
                         then (d, Inl InsufficientStock)
                         else approveLoan_commit d l i f now)))"

subsection \<open>rejectLoan\<close>

definition rejectLoan :: "db \<Rightarrow> oid \<Rightarrow> db \<times> (error + loan)" where
  "rejectLoan d loanId =
     (case findLoan loanId d of
        None \<Rightarrow> (d, Inl NotFound)
      | Some l \<Rightarrow>
          if estado l \<noteq> Pendiente then (d, Inl InvalidState)
          else (let l1 = l\<lparr>estado := Rechazado\<rparr> in (save_loan l1 d, Inr l1)))"

subsection \<open>returnLoan\<close>

definition returnLoan :: "db \<Rightarrow> oid \<Rightarrow> fecha \<Rightarrow> db \<times> (error + loan)" where
  "returnLoan d loanId now =
     (case findLoan loanId d of
        None \<Rightarrow> (d, Inl NotFound)
      | Some l \<Rightarrow>
          if estado l \<notin> {Aprobado, Aplazado} then (d, Inl InvalidState)
          else (case findItem (item l) d of
                  None \<Rightarrow> (d, Inl NotFound)
                | Some i \<Rightarrow>
                    (let l1 = l\<lparr>estado := Devuelto, fecha_retorno := Some now\<rparr>;
                         d1 = save_loan l1 d;
                         i1 = i\<lparr>cantidad_disponible :=
                                  cantidad_disponible i + cantidad_prestamo l1\<rparr>;
                         i2 = (if cantidad_disponible i1 > cantidad_total_stock i1
                               then i1\<lparr>cantidad_disponible := cantidad_total_stock i1\<rparr>
                               else i1)
                     in (save_item i2 d1, Inr l1))))"

subsection \<open>delayLoan\<close>

text \<open>
  The function reads the loan with \<^verbatim>\<open>usuario\<close> and \<^verbatim>\<open>item\<close> populated, for
  the mail it schedules; state, date and \<^verbatim>\<open>save\<close> work on the loan's own fields.
\<close>

definition delayLoan :: "db \<Rightarrow> oid \<Rightarrow> fecha option \<Rightarrow> db \<times> (error + loan)" where
  "delayLoan d loanId nuevaFecha =
     (case findLoan loanId d of
        None \<Rightarrow> (d, Inl NotFound)
      | Some l \<Rightarrow>
          if estado l \<notin> {Aprobado, Aplazado} then (d, Inl InvalidState)
          else (case nuevaFecha of
                  None \<Rightarrow> (d, Inl ValidationError)
                | Some f \<Rightarrow>
                    (let l1 = l\<lparr>estado := Aplazado, fecha_estimada := Some f\<rparr>
                     in (save_loan l1 d, Inr l1))))"

subsection \<open>deleteLoan\<close>

text \<open>
  \<^verbatim>\<open>Loan.findByIdAndDelete\<close> removes the document with the given \<^verbatim>\<open>_id\<close> and
  returns it, or returns \<^verbatim>\<open>null\<close> when there is none.
\<close>

definition deleteLoan :: "db \<Rightarrow> oid \<Rightarrow> db \<times> (error + loan)" where
  "deleteLoan d loanId =
     (case findLoan loanId d of
        None \<Rightarrow> (d, Inl NotFound)
      | Some l \<Rightarrow> (d\<lparr>loans := filter (\<lambda>x. loan_id x \<noteq> loanId) (loans d)\<rparr>, Inr l))"

subsection \<open>listLoans and getLoanById\<close>

text \<open>
  \<^verbatim>\<open>populate\<close> replaces each reference of a loan by the document it names, or by
  \<^verbatim>\<open>null\<close> when that document does not exist.
\<close>

record populated_loan =
  p_loan :: loan
  p_usuario :: "user option"
  p_item :: "item option"
  p_aula :: "classroom option"

definition populate :: "db \<Rightarrow> loan \<Rightarrow> populated_loan" where
  "populate d l = \<lparr>p_loan = l, p_usuario = findUser (usuario l) d,
                    p_item = findItem (item l) d, p_aula = findAula (aula l) d\<rparr>"

text \<open>The query object that \<^verbatim>\<open>listLoans\<close> builds: a field that is not set matches every loan.\<close>

record query =
  q_usuario :: "oid option"
  q_estado :: "estado option"

definition matches :: "query \<Rightarrow> loan \<Rightarrow> bool" where
  "matches q l =
     ((case q_usuario q of None \<Rightarrow> True | Some u \<Rightarrow> usuario l = u) \<and>
      (case q_estado q of None \<Rightarrow> True | Some e \<Rightarrow> estado l = e))"

text \<open>
  \<^verbatim>\<open>.sort({ createdAt: -1 })\<close>: descending by creation time. The order of loans
  created at the same instant is not fixed by the datastore; the model keeps their stored
  order.
\<close>

definition sort_createdAt_desc :: "loan list \<Rightarrow> loan list" where
  "sort_createdAt_desc ls = sort_key (\<lambda>l. - createdAt l) ls"

text \<open>
  The caller is the authenticated user document, of which the functions read
  \<^verbatim>\<open>rol\<close> and \<^verbatim>\<open>_id\<close>; \<open>filtro\<close> is \<^verbatim>\<open>filtros.estado\<close>.
\<close>

definition listLoans :: "db \<Rightarrow> user \<Rightarrow> estado option \<Rightarrow> populated_loan list" where
  "listLoans d caller filtro =
     (let q0 = \<lparr>q_usuario = None, q_estado = None\<rparr>;
          q1 = (if rol caller \<noteq> ''Admin'' then q0\<lparr>q_usuario := Some (user_id caller)\<rparr> else q0);
          q2 = (case filtro of None \<Rightarrow> q1 | Some e \<Rightarrow> q1\<lparr>q_estado := Some e\<rparr>)
      in map (populate d) (sort_createdAt_desc (filter (matches q2) (loans d))))"

definition getLoanById :: "db \<Rightarrow> user \<Rightarrow> oid \<Rightarrow> error + populated_loan" where
  "getLoanById d caller loanId =
     (case findLoan loanId d of
        None \<Rightarrow> Inl NotFound
      | Some l \<Rightarrow>
          (let p = populate d l
           in if rol caller \<noteq> ''Admin'' then
                (case p_usuario p of
                   None \<Rightarrow> Inl TypeError
                 | Some u \<Rightarrow> if user_id u \<noteq> user_id caller then Inl Forbidden else Inr p)
              else Inr p))"

subsection \<open>Sequences of approvals and returns\<close>

datatype operation = Approve oid "fecha option" fecha | Return oid fecha

fun apply_operation :: "db \<Rightarrow> operation \<Rightarrow> db" where
  "apply_operation d (Approve loanId fechaEstimada now) = fst (approveLoan d loanId fechaEstimada now)"
| "apply_operation d (Return loanId now) = fst (returnLoan d loanId now)"

fun run_operations :: "db \<Rightarrow> operation list \<Rightarrow> db" where
  "run_operations d [] = d"
| "run_operations d (x # xs) = run_operations (apply_operation d x) xs"

text \<open>
  Modelled from the spec: the Loan schema (\<^verbatim>\<open>models/Loan.js\<close>) is not part of the
  sources at hand. The data model gives \<^verbatim>\<open>cantidad_prestamo\<close> as the requested
  units, an integer greater than zero, fixed at creation.
\<close>

definition loan_schema_ok :: "loan \<Rightarrow> bool" where
  "loan_schema_ok l = (0 < cantidad_prestamo l)"

section \<open>The mail service\<close>

text \<open>
  \<^verbatim>\<open>src/services/mailService.js\<close>. The mail provider is outside the program: what
  \<^verbatim>\<open>resend.emails.send\<close> does on each call is a parameter. The call either
  resolves to \<^verbatim>\<open>{ data, error }\<close> (\<open>Resolved\<close>, with \<^verbatim>\<open>data.id\<close> and
  \<^verbatim>\<open>error.message\<close> when present) or rejects with an error object. A thrown value
  carries the three fields the \<^verbatim>\<open>catch\<close> block reads. Message texts are written in
  ASCII.
\<close>

record thrown =
  message :: string
  statusCode :: "nat option"
  code :: "string option"

datatype send_outcome = Resolved "string option" "string option" | Rejected thrown

text \<open>\<^verbatim>\<open>new Error(msg)\<close> has neither \<^verbatim>\<open>statusCode\<close> nor \<^verbatim>\<open>code\<close>.\<close>

definition new_Error :: "string \<Rightarrow> thrown" where
  "new_Error msg = \<lparr>message = msg, statusCode = None, code = None\<rparr>"

record env =
  RESEND_API_KEY :: "string option"
  isProduction :: bool
  VERIFIED_OWNER_EMAIL :: string

record mail =
  to :: "string option"
  subject :: string

text \<open>
  What the function does to the outside world, in order: a call of
  \<^verbatim>\<open>resend.emails.send\<close> (for the address \<^verbatim>\<open>to\<close>, sent to the recipient that
  \<^verbatim>\<open>getRecipient\<close> chose) or a pause of so many milliseconds.
\<close>

datatype event = Send string string | Wait nat

record send_result =
  success :: bool
  messageId :: "string option"
  error_message :: "string option"

text \<open>\<^verbatim>\<open>s.includes(t)\<close>: \<open>t\<close> occurs in \<open>s\<close> as a contiguous substring.\<close>

fun str_includes :: "string \<Rightarrow> string \<Rightarrow> bool" where
  "str_includes [] t = (t = [])"
| "str_includes (c # s) t = (prefix t (c # s) \<or> str_includes s t)"

text \<open>\<^verbatim>\<open>toLowerCase\<close> on the ASCII letters.\<close>

definition toLowerCase :: "string \<Rightarrow> string" where
  "toLowerCase s =
     map (\<lambda>c. if 65 \<le> (of_char c :: nat) \<and> (of_char c :: nat) \<le> 90
               then char_of ((of_char c :: nat) + 32) else c) s"

definition getRecipient :: "env \<Rightarrow> string \<Rightarrow> string" where
  "getRecipient e originalTo =
     (if isProduction e then originalTo
      else if toLowerCase originalTo = toLowerCase (VERIFIED_OWNER_EMAIL e) then originalTo
      else ''delivered@resend.dev'')"

text \<open>
  The body of the \<^verbatim>\<open>try\<close> block of \<^verbatim>\<open>sendEmail\<close> for one outcome of the
  provider: \<open>Inl\<close> is the value thrown inside the block, \<open>Inr\<close> the message id
  of a successful send. Subject and body do not influence the control flow.
\<close>

definition try_send :: "env \<Rightarrow> send_outcome \<Rightarrow> mail \<Rightarrow> (thrown + string) \<times> event list" where
  "try_send e out m =
     (case to m of
        None \<Rightarrow> (Inl (new_Error ''Email invalido''), [])
      | Some t \<Rightarrow>
          if t = [] \<or> \<not> str_includes t ''@'' then (Inl (new_Error ''Email invalido''), [])
          else if RESEND_API_KEY e = None then (Inl (new_Error ''RESEND_API_KEY no configurada''), [])
          else (let recipientEmail = getRecipient e t;
                    evs = [Send t recipientEmail]
                in case out of
                     Rejected x \<Rightarrow> (Inl x, evs)
                   | Resolved dat err \<Rightarrow>
                       (case err of
                          Some msg \<Rightarrow> (Inl (new_Error (''Resend error: '' @ msg)), evs)
                        | None \<Rightarrow>
                            (case dat of
                               None \<Rightarrow> (Inl (new_Error ''Cannot read properties of null''), evs)
                             | Some mid \<Rightarrow> (Inr mid, evs)))))"

text \<open>The test of the \<^verbatim>\<open>catch\<close> block that decides on another attempt.\<close>

definition retryable :: "thrown \<Rightarrow> bool" where
  "retryable x = (statusCode x = Some 429 \<or> code x = Some ''ETIMEDOUT'')"

text \<open>
  \<^verbatim>\<open>sendEmail\<close>: \<open>api n\<close> is the outcome of the provider for attempt number \<open>n\<close>
  and \<open>k\<close> is the number of the current attempt. Every exit of the function is a
  \<^verbatim>\<open>return\<close> of a result object: what the \<^verbatim>\<open>try\<close> block throws is handled by
  the \<^verbatim>\<open>catch\<close> block.
\<close>

fun sendEmail :: "env \<Rightarrow> (nat \<Rightarrow> send_outcome) \<Rightarrow> nat \<Rightarrow> mail \<Rightarrow> nat \<Rightarrow> send_result \<times> event list" where
  "sendEmail e api k m retries =
     (case try_send e (api k) m of
        (Inr mid, evs) \<Rightarrow> (\<lparr>success = True, messageId = Some mid, error_message = None\<rparr>, evs)
      | (Inl x, evs) \<Rightarrow>
          if retries > 0 \<and> retryable x then
            (case sendEmail e api (k + 1) m (retries - 1) of
               (r, evs') \<Rightarrow> (r, evs @ Wait 2000 # evs'))
          else (\<lparr>success = False, messageId = None, error_message = Some (message x)\<rparr>, evs))"

declare sendEmail.simps [simp del]

text \<open>The callers never pass \<^verbatim>\<open>retries\<close>: it is the default, 2.\<close>

definition sendEmail_default :: "env \<Rightarrow> (nat \<Rightarrow> send_outcome) \<Rightarrow> mail \<Rightarrow> send_result \<times> event list" where
  "sendEmail_default e api m = sendEmail e api 0 m 2"

subsection \<open>notifyAdminsNewLoan\<close>

record notify_result =
  n_success :: bool
  n_error :: "string option"
  n_successful :: "nat option"
  n_failed :: "nat option"

text \<open>The predicate of \<^verbatim>\<open>admins.filter\<close>.\<close>

definition validAdmin :: "user \<Rightarrow> bool" where
  "validAdmin admin =
     (case email admin of
        None \<Rightarrow> False
      | Some a \<Rightarrow>
          if a = [] \<or> \<not> str_includes a ''@'' then False
          else if str_includes a ''demo.com'' \<or> str_includes a ''test.com'' then False
          else True)"

definition validAdmins :: "db \<Rightarrow> user list" where
  "validAdmins d = filter validAdmin (filter (\<lambda>u. rol u = ''Admin'') (users d))"

text \<open>
  \<open>api n\<close> is the provider as the \<open>n\<close>-th of the notified administrators meets it.
  The arguments \<^verbatim>\<open>user\<close>, \<^verbatim>\<open>loan\<close>, \<^verbatim>\<open>item\<close> and \<^verbatim>\<open>aula\<close> only fill
  the message body.
\<close>

definition notifyAdminsNewLoan :: "env \<Rightarrow> (nat \<Rightarrow> nat \<Rightarrow> send_outcome) \<Rightarrow> db \<Rightarrow> notify_result \<times> event list" where
  "notifyAdminsNewLoan e api d =
     (let admins = filter (\<lambda>u. rol u = ''Admin'') (users d)
      in if admins = [] then
           (\<lparr>n_success = False, n_error = Some ''No admins found'',
             n_successful = None, n_failed = None\<rparr>, [])
         else if validAdmins d = [] then
           (\<lparr>n_success = False, n_error = Some ''No valid admin emails'',
             n_successful = None, n_failed = None\<rparr>, [])
         else
           (let results = map (\<lambda>(n, admin).
                                 sendEmail_default e (api n)
                                   \<lparr>to = email admin, subject = ''Nueva Solicitud de Prestamo''\<rparr>)
                              (enumerate 0 (validAdmins d));
                successful = length (filter (\<lambda>r. success (fst r)) results);
                failed = length results - successful
            in (\<lparr>n_success = successful > 0, n_error = None,
                 n_successful = Some successful, n_failed = Some failed\<rparr>,
                concat (map snd results))))"

section \<open>Properties to state, and example data\<close>

text \<open>The stock bounds of an item.\<close>

definition item_ok :: "item \<Rightarrow> bool" where
  "item_ok i = (0 \<le> cantidad_disponible i \<and> cantidad_disponible i \<le> cantidad_total_stock i)"

text \<open>The calls of the provider and the pauses in a sequence of events.\<close>

fun is_Send :: "event \<Rightarrow> bool" where
  "is_Send (Send t r) = True"
| "is_Send (Wait w) = False"

definition attempts :: "event list \<Rightarrow> nat" where
  "attempts evs = length (filter is_Send evs)"

definition pauses :: "event list \<Rightarrow> nat list" where
  "pauses evs = concat (map (\<lambda>ev. case ev of Send t r \<Rightarrow> [] | Wait w \<Rightarrow> [w]) evs)"

text \<open>
  A small datastore on which the theorems below are instantiated: one item with 3 of 5
  units available, four loans of two borrowers (the last asks for more than there is), and
  five users of which three are administrators. The state of the first loan is a parameter.
\<close>

definition example_item :: item where
  "example_item = \<lparr>item_id = 10, nombre = ''Proyector'', cantidad_disponible = 3,
                    cantidad_total_stock = 5\<rparr>"

definition example_loan :: "estado \<Rightarrow> loan" where
  "example_loan e = \<lparr>loan_id = 1, usuario = 7, item = 10, aula = 20, cantidad_prestamo = 2,
                      estado = e, fecha_prestamo = None, fecha_estimada = None,
                      fecha_retorno = None, createdAt = 1000\<rparr>"

definition example_big_loan :: loan where
  "example_big_loan = \<lparr>loan_id = 4, usuario = 8, item = 10, aula = 20, cantidad_prestamo = 9,
                        estado = Pendiente, fecha_prestamo = None, fecha_estimada = None,
                        fecha_retorno = None, createdAt = 3000\<rparr>"

definition example_users :: "user list" where
  "example_users =
     [\<lparr>user_id = 7, user_nombre = ''Ana'', email = Some ''ana@sena.edu.co'', rol = ''Comun''\<rparr>,
      \<lparr>user_id = 8, user_nombre = ''Luis'', email = Some ''luis@sena.edu.co'', rol = ''Comun''\<rparr>,
      \<lparr>user_id = 9, user_nombre = ''Demo'', email = Some ''admin@demo.com'', rol = ''Admin''\<rparr>,
      \<lparr>user_id = 11, user_nombre = ''Jefe'', email = Some ''jefe@sena.edu.co'', rol = ''Admin''\<rparr>,
      \<lparr>user_id = 12, user_nombre = ''Prueba'', email = Some ''qa@test.com'', rol = ''Admin''\<rparr>]"

definition example_db :: "estado \<Rightarrow> db" where
  "example_db e =
     \<lparr>loans = [example_loan e,
               \<lparr>loan_id = 2, usuario = 8, item = 10, aula = 20, cantidad_prestamo = 1,
                estado = Pendiente, fecha_prestamo = None, fecha_estimada = None,
                fecha_retorno = None, createdAt = 2000\<rparr>,
               \<lparr>loan_id = 3, usuario = 7, item = 10, aula = 20, cantidad_prestamo = 1,
                estado = Devuelto, fecha_prestamo = Some 2500, fecha_estimada = Some 2900,
                fecha_retorno = Some 2800, createdAt = 2400\<rparr>,
               example_big_loan],
      items = [example_item],
      users = example_users,
      aulas = [\<lparr>aula_id = 20, aula_nombre = ''Aula 1''\<rparr>]\<rparr>"

text \<open>
  Two requests for the last unit: an item with 1 of 5 units available and two pending loans
  of one unit each. Both requests are approved at the same time, and both have read the
  loan and the item (lines 53 to 67) before either writes (lines 69 to 84).
\<close>

definition race_item :: item where
  "race_item = \<lparr>item_id = 10, nombre = ''Proyector'', cantidad_disponible = 1,
                 cantidad_total_stock = 5\<rparr>"

definition race_loan :: "oid \<Rightarrow> oid \<Rightarrow> loan" where
  "race_loan k u = \<lparr>loan_id = k, usuario = u, item = 10, aula = 20, cantidad_prestamo = 1,
                     estado = Pendiente, fecha_prestamo = None, fecha_estimada = None,
                     fecha_retorno = None, createdAt = 1000\<rparr>"

definition race_db :: db where
  "race_db = \<lparr>loans = [race_loan 1 7, race_loan 2 8], items = [race_item],
               users = example_users, aulas = [\<lparr>aula_id = 20, aula_nombre = ''Aula 1''\<rparr>]\<rparr>"

definition race_after_first :: db where
  "race_after_first = fst (approveLoan_commit race_db (race_loan 1 7) race_item 5000 4000)"

definition race_final :: db where
  "race_final = fst (approveLoan_commit race_after_first (race_loan 2 8) race_item 5000 4001)"

text \<open>
  A development environment with an API key, a message, and three behaviours of the mail
  provider: every call rejected as rate limited, every call answered with an API error,
  every call delivered.
\<close>

definition example_env :: env where
  "example_env = \<lparr>RESEND_API_KEY = Some ''re_123'', isProduction = False,
                   VERIFIED_OWNER_EMAIL = ''dafecano@gmail.com''\<rparr>"

definition example_mail :: mail where
  "example_mail = \<lparr>to = Some ''jefe@sena.edu.co'', subject = ''Prestamo Aprobado''\<rparr>"

definition rate_limited :: "nat \<Rightarrow> send_outcome" where
  "rate_limited k = Rejected \<lparr>message = ''Too many requests'', statusCode = Some 429, code = None\<rparr>"

definition api_error :: "nat \<Rightarrow> send_outcome" where
  "api_error k = Resolved None (Some ''Invalid API key'')"

definition delivered :: "nat \<Rightarrow> send_outcome" where
  "delivered k = Resolved (Some ''msg-1'') None"

section \<open>The datastore operations\<close>

lemmas example_defs = example_db_def example_loan_def example_big_loan_def example_item_def
  example_users_def findLoan_def findItem_def findUser_def findAula_def

lemma find_replace:
  "find (\<lambda>x. f x = k) (map (\<lambda>x. if f x = f d then d else x) xs) =
     (if k = f d then map_option (\<lambda>_. d) (find (\<lambda>x. f x = k) xs)
      else find (\<lambda>x. f x = k) xs)"
  by (induction xs) auto

lemma find_key: "find (\<lambda>x. f x = k) xs = Some y \<Longrightarrow> f y = k \<and> y \<in> set xs"
  by (induction xs) (auto split: if_splits)

lemma findLoan_id: "findLoan k d = Some l \<Longrightarrow> loan_id l = k"
  unfolding findLoan_def by (drule find_key) simp

lemma findItem_id: "findItem k d = Some i \<Longrightarrow> item_id i = k"
  unfolding findItem_def by (drule find_key) simp

lemma findLoan_save_loan:
  "findLoan k (save_loan l d) =
     (if k = loan_id l then map_option (\<lambda>_. l) (findLoan k d) else findLoan k d)"
  by (simp add: findLoan_def save_loan_def find_replace)

lemma findItem_save_item:
  "findItem k (save_item i d) =
     (if k = item_id i then map_option (\<lambda>_. i) (findItem k d) else findItem k d)"
  by (simp add: findItem_def save_item_def find_replace)

lemma findItem_save_loan [simp]: "findItem k (save_loan l d) = findItem k d"
  by (simp add: findItem_def save_loan_def)

lemma findLoan_save_item [simp]: "findLoan k (save_item i d) = findLoan k d"
  by (simp add: findLoan_def save_item_def)

lemma items_save_loan [simp]: "items (save_loan l d) = items d"
  by (simp add: save_loan_def)

lemma loans_save_item [simp]: "loans (save_item i d) = loans d"
  by (simp add: save_item_def)

lemma approveLoan_success:
  assumes "findLoan loanId d = Some l" and "estado l = Pendiente"
    and "findItem (item l) d = Some i" and "cantidad_prestamo l \<le> cantidad_disponible i"
  shows "approveLoan d loanId (Some f) now =
           (save_item (i\<lparr>cantidad_disponible := cantidad_disponible i - cantidad_prestamo l\<rparr>)
              (save_loan (l\<lparr>estado := Aprobado, fecha_prestamo := Some now,
                            fecha_estimada := Some f\<rparr>) d),
            Inr (l\<lparr>estado := Aprobado, fecha_prestamo := Some now, fecha_estimada := Some f\<rparr>))"
  using assms by (simp add: approveLoan_def approveLoan_commit_def Let_def)

lemma returnLoan_success:
  assumes "findLoan loanId d = Some l" and "estado l = Aprobado \<or> estado l = Aplazado"
    and "findItem (item l) d = Some i"
  shows "returnLoan d loanId now =
           (save_item (i\<lparr>cantidad_disponible :=
                          min (cantidad_disponible i + cantidad_prestamo l) (cantidad_total_stock i)\<rparr>)
              (save_loan (l\<lparr>estado := Devuelto, fecha_retorno := Some now\<rparr>) d),
            Inr (l\<lparr>estado := Devuelto, fecha_retorno := Some now\<rparr>))"
  using assms by (auto simp add: returnLoan_def Let_def min_def)

lemma find_filter_other:
  "find (\<lambda>x. f x = k) (filter (\<lambda>x. f x \<noteq> j) xs) =
     (if k = j then None else find (\<lambda>x. f x = k) xs)"
  by (induction xs) auto

lemma approveLoan_failure_frame:
  "snd (approveLoan d loanId fe now) = Inl e \<Longrightarrow> fst (approveLoan d loanId fe now) = d"
  by (auto simp add: approveLoan_def approveLoan_commit_def Let_def
      split: option.splits if_splits)

lemma loans_schema_save_loan:
  "\<forall>l \<in> set (loans d). loan_schema_ok l \<Longrightarrow> loan_schema_ok l1 \<Longrightarrow>
   \<forall>l \<in> set (loans (save_loan l1 d)). loan_schema_ok l"
  by (auto simp add: save_loan_def)

lemma findLoan_mem: "findLoan k d = Some l \<Longrightarrow> l \<in> set (loans d)"
  unfolding findLoan_def by (drule find_key) simp

lemma returnLoan_cases:
  "(\<exists>e. returnLoan d loanId now = (d, Inl e)) \<or>
   (\<exists>l i. findLoan loanId d = Some l \<and> estado l \<in> {Aprobado, Aplazado} \<and>
           findItem (item l) d = Some i)"
proof (cases "findLoan loanId d")
  case None
  then show ?thesis by (simp add: returnLoan_def)
next
  case (Some l)
  show ?thesis
  proof (cases "findItem (item l) d")
    case None
    then show ?thesis using Some by (simp add: returnLoan_def)
  next
    case (Some i)
    then show ?thesis using \<open>findLoan loanId d = Some l\<close>
      by (cases "estado l \<in> {Aprobado, Aplazado}") (simp_all add: returnLoan_def)
  qed
qed

lemma approveLoan_cases:
  "(\<exists>e. approveLoan d loanId fe now = (d, Inl e)) \<or>
   (\<exists>l i f. fe = Some f \<and> findLoan loanId d = Some l \<and> estado l = Pendiente \<and>
           findItem (item l) d = Some i \<and> cantidad_prestamo l \<le> cantidad_disponible i)"
proof (cases "findLoan loanId d")
  case None
  then show ?thesis by (simp add: approveLoan_def)
next
  case (Some l)
  note l = this
  show ?thesis
  proof (cases "estado l = Pendiente")
    case False
    then show ?thesis using l by (simp add: approveLoan_def)
  next
    case True
    note p = this
    show ?thesis
    proof (cases fe)
      case None
      then show ?thesis using l p by (simp add: approveLoan_def)
    next
      case (Some f)
      note f = this
      show ?thesis
      proof (cases "findItem (item l) d")
        case None
        then show ?thesis using l p f by (simp add: approveLoan_def)
      next
        case (Some i)
        then show ?thesis using l p f
          by (cases "cantidad_prestamo l \<le> cantidad_disponible i") (simp_all add: approveLoan_def)
      qed
    qed
  qed
qed

lemma approveLoan_schema:
  assumes "\<forall>l \<in> set (loans d). loan_schema_ok l"
  shows "\<forall>l \<in> set (loans (fst (approveLoan d loanId fe now))). loan_schema_ok l"
  using approveLoan_cases [of d loanId fe now]
proof (elim disjE exE conjE)
  fix e assume "approveLoan d loanId fe now = (d, Inl e)"
  then show ?thesis using assms by simp
next
  fix l i f assume h: "fe = Some f" "findLoan loanId d = Some l" "estado l = Pendiente"
     "findItem (item l) d = Some i" "cantidad_prestamo l \<le> cantidad_disponible i"
  have "loan_schema_ok l" using h(2) assms findLoan_mem by blast
  then have "loan_schema_ok (l\<lparr>estado := Aprobado, fecha_prestamo := Some now, fecha_estimada := Some f\<rparr>)"
    by (simp add: loan_schema_ok_def)
  then have "\<forall>x \<in> set (loans (save_loan (l\<lparr>estado := Aprobado, fecha_prestamo := Some now,
                 fecha_estimada := Some f\<rparr>) d)). loan_schema_ok x"
    using assms by (intro loans_schema_save_loan)
  moreover have "loans (fst (approveLoan d loanId fe now)) =
      loans (save_loan (l\<lparr>estado := Aprobado, fecha_prestamo := Some now,
                 fecha_estimada := Some f\<rparr>) d)"
    unfolding h(1) by (subst approveLoan_success [OF h(2-5)]) simp
  ultimately show ?thesis by simp
qed

lemma returnLoan_schema:
  assumes "\<forall>l \<in> set (loans d). loan_schema_ok l"
  shows "\<forall>l \<in> set (loans (fst (returnLoan d loanId now))). loan_schema_ok l"
  using returnLoan_cases [of d loanId now]
proof (elim disjE exE conjE)
  fix e assume "returnLoan d loanId now = (d, Inl e)"
  then show ?thesis using assms by simp
next
  fix l i assume h: "findLoan loanId d = Some l" "estado l \<in> {Aprobado, Aplazado}"
    "findItem (item l) d = Some i"
  have "loan_schema_ok l" using h(1) assms findLoan_mem by blast
  then have "loan_schema_ok (l\<lparr>estado := Devuelto, fecha_retorno := Some now\<rparr>)"
    by (simp add: loan_schema_ok_def)
  then have "\<forall>x \<in> set (loans (save_loan (l\<lparr>estado := Devuelto, fecha_retorno := Some now\<rparr>) d)).
      loan_schema_ok x"
    using assms by (intro loans_schema_save_loan)
  moreover have "loans (fst (returnLoan d loanId now)) =
      loans (save_loan (l\<lparr>estado := Devuelto, fecha_retorno := Some now\<rparr>) d)"
    using h(2) by (subst returnLoan_success [OF h(1) _ h(3)]) simp_all
  ultimately show ?thesis by simp
qed

lemma approveLoan_item_ok:
  assumes "\<forall>l \<in> set (loans d). loan_schema_ok l"
    and "findItem k d = Some i" and "item_ok i"
  shows "\<exists>i'. findItem k (fst (approveLoan d loanId fe now)) = Some i' \<and> item_ok i'"
  using approveLoan_cases [of d loanId fe now]
proof (elim disjE exE conjE)
  fix e assume "approveLoan d loanId fe now = (d, Inl e)"
  then show ?thesis using assms by simp
next
  fix l j f assume h: "fe = Some f" "findLoan loanId d = Some l" "estado l = Pendiente"
    "findItem (item l) d = Some j" "cantidad_prestamo l \<le> cantidad_disponible j"
  have pos: "0 < cantidad_prestamo l"
    using h(2) assms(1) findLoan_mem loan_schema_ok_def by blast
  have jid: "item_id j = item l" using h(4) findItem_id by simp
  have eq: "approveLoan d loanId fe now =
      (save_item (j\<lparr>cantidad_disponible := cantidad_disponible j - cantidad_prestamo l\<rparr>)
         (save_loan (l\<lparr>estado := Aprobado, fecha_prestamo := Some now,
                       fecha_estimada := Some f\<rparr>) d),
       Inr (l\<lparr>estado := Aprobado, fecha_prestamo := Some now, fecha_estimada := Some f\<rparr>))"
    unfolding h(1) by (rule approveLoan_success [OF h(2-5)])
  show ?thesis
  proof (cases "k = item l")
    case True
    then have "j = i" using h(4) assms(2) by simp
    then have "item_ok (j\<lparr>cantidad_disponible := cantidad_disponible j - cantidad_prestamo l\<rparr>)"
      using pos h(5) assms(3) by (simp add: item_ok_def)
    moreover have "findItem k (fst (approveLoan d loanId fe now)) =
        Some (j\<lparr>cantidad_disponible := cantidad_disponible j - cantidad_prestamo l\<rparr>)"
      unfolding eq using True jid h(4) by (simp add: findItem_save_item)
    ultimately show ?thesis by blast
  next
    case False
    then have "findItem k (fst (approveLoan d loanId fe now)) = Some i"
      unfolding eq using jid assms(2) by (simp add: findItem_save_item)
    then show ?thesis using assms(3) by blast
  qed
qed

lemma returnLoan_item_ok:
  assumes "\<forall>l \<in> set (loans d). loan_schema_ok l"
    and "findItem k d = Some i" and "item_ok i"
  shows "\<exists>i'. findItem k (fst (returnLoan d loanId now)) = Some i' \<and> item_ok i'"
  using returnLoan_cases [of d loanId now]
proof (elim disjE exE conjE)
  fix e assume "returnLoan d loanId now = (d, Inl e)"
  then show ?thesis using assms by simp
next
  fix l j assume h: "findLoan loanId d = Some l" "estado l \<in> {Aprobado, Aplazado}"
    "findItem (item l) d = Some j"
  have pos: "0 < cantidad_prestamo l"
    using h(1) assms(1) findLoan_mem loan_schema_ok_def by blast
  have jid: "item_id j = item l" using h(3) findItem_id by simp
  have eq: "returnLoan d loanId now =
      (save_item (j\<lparr>cantidad_disponible :=
                     min (cantidad_disponible j + cantidad_prestamo l) (cantidad_total_stock j)\<rparr>)
         (save_loan (l\<lparr>estado := Devuelto, fecha_retorno := Some now\<rparr>) d),
       Inr (l\<lparr>estado := Devuelto, fecha_retorno := Some now\<rparr>))"
    using h(2) by (intro returnLoan_success [OF h(1) _ h(3)]) simp
  show ?thesis
  proof (cases "k = item l")
    case True
    then have "j = i" using h(3) assms(2) by simp
    then have "item_ok (j\<lparr>cantidad_disponible :=
        min (cantidad_disponible j + cantidad_prestamo l) (cantidad_total_stock j)\<rparr>)"
      using pos assms(3) by (simp add: item_ok_def)
    moreover have "findItem k (fst (returnLoan d loanId now)) =
        Some (j\<lparr>cantidad_disponible :=
                 min (cantidad_disponible j + cantidad_prestamo l) (cantidad_total_stock j)\<rparr>)"
      unfolding eq using True jid h(3) by (simp add: findItem_save_item)
    ultimately show ?thesis by blast
  next
    case False
    then have "findItem k (fst (returnLoan d loanId now)) = Some i"
      unfolding eq using jid assms(2) by (simp add: findItem_save_item)
    then show ?thesis using assms(3) by blast
  qed
qed

lemma apply_operation_schema:
  "\<forall>l \<in> set (loans d). loan_schema_ok l \<Longrightarrow>
   \<forall>l \<in> set (loans (apply_operation d x)). loan_schema_ok l"
proof (cases x)
  case (Approve loanId fe now)
  assume "\<forall>l \<in> set (loans d). loan_schema_ok l"
  then show ?thesis unfolding Approve apply_operation.simps by (rule approveLoan_schema)
next
  case (Return loanId now)
  assume "\<forall>l \<in> set (loans d). loan_schema_ok l"
  then show ?thesis unfolding Return apply_operation.simps by (rule returnLoan_schema)
qed

lemma apply_operation_item_ok:
  "\<forall>l \<in> set (loans d). loan_schema_ok l \<Longrightarrow> findItem k d = Some i \<Longrightarrow> item_ok i \<Longrightarrow>
   \<exists>i'. findItem k (apply_operation d x) = Some i' \<and> item_ok i'"
proof (cases x)
  case (Approve loanId fe now)
  assume "\<forall>l \<in> set (loans d). loan_schema_ok l" "findItem k d = Some i" "item_ok i"
  then show ?thesis unfolding Approve apply_operation.simps by (rule approveLoan_item_ok)
next
  case (Return loanId now)
  assume "\<forall>l \<in> set (loans d). loan_schema_ok l" "findItem k d = Some i" "item_ok i"
  then show ?thesis unfolding Return apply_operation.simps by (rule returnLoan_item_ok)
qed

section \<open>The loan lifecycle\<close>

text \<open>
  C1. Take a datastore whose loans all ask for a positive number of units, and an item in
  it with \<open>0 \<le> cantidad_disponible \<le> cantidad_total_stock\<close>. After any finite
  sequence of \<^verbatim>\<open>approveLoan\<close> and \<^verbatim>\<open>returnLoan\<close> calls, with any arguments
  and whether they succeed or fail, the item is still stored and still satisfies
  \<open>0 \<le> cantidad_disponible \<le> cantidad_total_stock\<close>.
\<close>

theorem stock_invariant:
  assumes "\<forall>l \<in> set (loans d). loan_schema_ok l"
    and "findItem k d = Some i"
    and "0 \<le> cantidad_disponible i" and "cantidad_disponible i \<le> cantidad_total_stock i"
  shows "\<exists>i'. findItem k (run_operations d xs) = Some i' \<and>
              0 \<le> cantidad_disponible i' \<and> cantidad_disponible i' \<le> cantidad_total_stock i'"
proof -
  have "\<exists>i'. findItem k (run_operations d xs) = Some i' \<and> item_ok i'"
    if "\<forall>l \<in> set (loans d). loan_schema_ok l" "findItem k d = Some i" "item_ok i" for d i
    using that
  proof (induction xs arbitrary: d i)
    case Nil
    then show ?case by simp
  next
    case (Cons x xs)
    obtain i' where "findItem k (apply_operation d x) = Some i'" "item_ok i'"
      using apply_operation_item_ok [OF Cons.prems] by blast
    moreover have "\<forall>l \<in> set (loans (apply_operation d x)). loan_schema_ok l"
      using Cons.prems(1) by (rule apply_operation_schema)
    ultimately show ?case using Cons.IH by simp
  qed
  then show ?thesis using assms by (simp add: item_ok_def)
qed

theorem stock_invariant_witness:
  "list_all loan_schema_ok (loans (example_db Pendiente)) \<and>
   findItem 10 (example_db Pendiente) = Some example_item \<and>
   0 \<le> cantidad_disponible example_item \<and>
   cantidad_disponible example_item \<le> cantidad_total_stock example_item \<and>
   (\<exists>i'. findItem 10 (run_operations (example_db Pendiente)
                        [Approve 1 (Some 5000) 4000, Approve 2 None 4100, Return 1 6000]) = Some i' \<and>
         0 \<le> cantidad_disponible i' \<and> cantidad_disponible i' \<le> cantidad_total_stock i')"
proof -
  have h1: "\<forall>l \<in> set (loans (example_db Pendiente)). loan_schema_ok l"
    by (simp add: example_defs loan_schema_ok_def)
  have h2: "findItem 10 (example_db Pendiente) = Some example_item"
    by (simp add: example_defs)
  have h3: "0 \<le> cantidad_disponible example_item"
    and h4: "cantidad_disponible example_item \<le> cantidad_total_stock example_item"
    by (simp_all add: example_defs)
  have h1': "list_all loan_schema_ok (loans (example_db Pendiente))"
    using h1 by (simp only: list_all_iff)
  from stock_invariant [OF h1 h2 h3 h4] h1' h2 h3 h4 show ?thesis by blast
qed

text \<open>
  C2. For a stored loan in state \<open>Pendiente\<close>, a given estimated date, and an item with
  at least \<open>cantidad_prestamo\<close> units available, \<^verbatim>\<open>approveLoan\<close> returns the loan
  with state \<open>Aprobado\<close>, \<^verbatim>\<open>fecha_prestamo\<close> the current time and
  \<^verbatim>\<open>fecha_estimada\<close> the given date; that loan is the stored one, and the stored item
  has \<^verbatim>\<open>cantidad_disponible\<close> lowered by exactly \<^verbatim>\<open>cantidad_prestamo\<close>. For an
  item with 3 of 5 available and a loan of 2, the approval leaves 1 available and a return
  after it leaves 3, with the loan \<open>Devuelto\<close>.
\<close>

theorem approveLoan_approves:
  assumes "findLoan loanId d = Some l" and "estado l = Pendiente"
    and "findItem (item l) d = Some i" and "cantidad_prestamo l \<le> cantidad_disponible i"
  shows "snd (approveLoan d loanId (Some f) now) =
           Inr (l\<lparr>estado := Aprobado, fecha_prestamo := Some now, fecha_estimada := Some f\<rparr>) \<and>
         findLoan loanId (fst (approveLoan d loanId (Some f) now)) =
           Some (l\<lparr>estado := Aprobado, fecha_prestamo := Some now, fecha_estimada := Some f\<rparr>) \<and>
         findItem (item l) (fst (approveLoan d loanId (Some f) now)) =
           Some (i\<lparr>cantidad_disponible := cantidad_disponible i - cantidad_prestamo l\<rparr>) \<and>
         (cantidad_disponible i = 3 \<and> cantidad_total_stock i = 5 \<and> cantidad_prestamo l = 2 \<longrightarrow>
            map_option cantidad_disponible
              (findItem (item l) (fst (approveLoan d loanId (Some f) now))) = Some 1 \<and>
            map_option estado
              (findLoan loanId (fst (returnLoan (fst (approveLoan d loanId (Some f) now)) loanId now')))
              = Some Devuelto \<and>
            map_option cantidad_disponible
              (findItem (item l) (fst (returnLoan (fst (approveLoan d loanId (Some f) now)) loanId now')))
              = Some 3)"
proof -
  let ?l1 = "l\<lparr>estado := Aprobado, fecha_prestamo := Some now, fecha_estimada := Some f\<rparr>"
  let ?i1 = "i\<lparr>cantidad_disponible := cantidad_disponible i - cantidad_prestamo l\<rparr>"
  let ?d1 = "fst (approveLoan d loanId (Some f) now)"
  have lid: "loan_id l = loanId" and iid: "item_id i = item l"
    using assms findLoan_id findItem_id by auto
  have ap: "approveLoan d loanId (Some f) now = (save_item ?i1 (save_loan ?l1 d), Inr ?l1)"
    using assms by (rule approveLoan_success)
  have fl: "findLoan loanId ?d1 = Some ?l1"
    using assms(1) lid by (simp add: ap findLoan_save_loan)
  have fi: "findItem (item l) ?d1 = Some ?i1"
    using assms(3) iid by (simp add: ap findItem_save_item)
  have scen: "map_option estado (findLoan loanId (fst (returnLoan ?d1 loanId now'))) = Some Devuelto \<and>
      map_option cantidad_disponible (findItem (item l) (fst (returnLoan ?d1 loanId now'))) = Some 3"
    if "cantidad_disponible i = 3" "cantidad_total_stock i = 5" "cantidad_prestamo l = 2"
  proof -
    have "returnLoan ?d1 loanId now' =
           (save_item (?i1\<lparr>cantidad_disponible :=
                          min (cantidad_disponible ?i1 + cantidad_prestamo ?l1) (cantidad_total_stock ?i1)\<rparr>)
              (save_loan (?l1\<lparr>estado := Devuelto, fecha_retorno := Some now'\<rparr>) ?d1),
            Inr (?l1\<lparr>estado := Devuelto, fecha_retorno := Some now'\<rparr>))"
      by (rule returnLoan_success) (use fl fi in simp_all)
    then show ?thesis
      using fl fi lid iid that by (simp add: findLoan_save_loan findItem_save_item)
  qed
  have res: "snd (approveLoan d loanId (Some f) now) = Inr ?l1"
    by (simp add: ap)
  have one: "map_option cantidad_disponible (findItem (item l) ?d1) = Some 1"
    if "cantidad_disponible i = 3" "cantidad_prestamo l = 2"
    using that by (simp add: fi)
  show ?thesis
  proof (intro conjI impI)
    assume "cantidad_disponible i = 3 \<and> cantidad_total_stock i = 5 \<and> cantidad_prestamo l = 2"
    then show "map_option cantidad_disponible (findItem (item l) ?d1) = Some 1"
      and "map_option estado (findLoan loanId (fst (returnLoan ?d1 loanId now'))) = Some Devuelto"
      and "map_option cantidad_disponible
             (findItem (item l) (fst (returnLoan ?d1 loanId now'))) = Some 3"
      using one scen by blast+
  qed (rule res fl fi)+
qed

theorem approveLoan_approves_witness:
  "findLoan 1 (example_db Pendiente) = Some (example_loan Pendiente) \<and>
   estado (example_loan Pendiente) = Pendiente \<and>
   findItem (item (example_loan Pendiente)) (example_db Pendiente) = Some example_item \<and>
   cantidad_prestamo (example_loan Pendiente) \<le> cantidad_disponible example_item \<and>
   snd (approveLoan (example_db Pendiente) 1 (Some 5000) 4000) =
     Inr ((example_loan Pendiente)\<lparr>estado := Aprobado, fecha_prestamo := Some 4000,
                                    fecha_estimada := Some 5000\<rparr>) \<and>
   map_option cantidad_disponible
     (findItem 10 (fst (approveLoan (example_db Pendiente) 1 (Some 5000) 4000))) = Some 1 \<and>
   map_option cantidad_disponible
     (findItem 10 (fst (returnLoan (fst (approveLoan (example_db Pendiente) 1 (Some 5000) 4000))
                          1 6000))) = Some 3"
proof -
  have h1: "findLoan 1 (example_db Pendiente) = Some (example_loan Pendiente)"
    by (simp add: example_defs)
  have h2: "estado (example_loan Pendiente) = Pendiente"
    by (simp add: example_defs)
  have h3: "findItem (item (example_loan Pendiente)) (example_db Pendiente) = Some example_item"
    by (simp add: example_defs)
  have h4: "cantidad_prestamo (example_loan Pendiente) \<le> cantidad_disponible example_item"
    by (simp add: example_defs)
  have s: "cantidad_disponible example_item = 3 \<and> cantidad_total_stock example_item = 5 \<and>
           cantidad_prestamo (example_loan Pendiente) = 2"
    and i: "item (example_loan Pendiente) = 10"
    by (simp_all add: example_defs)
  from approveLoan_approves [OF h1 h2 h3 h4, of 5000 4000 6000] s h1 h2 h3 h4
  show ?thesis unfolding i by blast
qed

text \<open>
  C3. \<^verbatim>\<open>approveLoan\<close> on a stored loan that is not \<open>Pendiente\<close> fails with
  \<open>InvalidState\<close>, whatever the other arguments. An approval with a date, of a
  \<open>Pendiente\<close> loan that asks for more units than its item has available, fails with
  \<open>InsufficientStock\<close>. In both cases, as in every failure of \<^verbatim>\<open>approveLoan\<close>,
  the datastore afterwards is the datastore before: no loan and no item has changed. The
  checks run in the order state, date, item, stock, so an approval of a \<open>Pendiente\<close>
  loan with no date fails with \<open>ValidationError\<close> before the stock is looked at.
\<close>

theorem approveLoan_rejects:
  "(findLoan loanId d = Some l \<and> estado l \<noteq> Pendiente \<longrightarrow>
      approveLoan d loanId fe now = (d, Inl InvalidState)) \<and>
   (findLoan loanId d = Some l \<and> estado l = Pendiente \<longrightarrow>
      approveLoan d loanId None now = (d, Inl ValidationError)) \<and>
   (findLoan loanId d = Some l \<and> estado l = Pendiente \<and> findItem (item l) d = Some i \<and>
    cantidad_prestamo l > cantidad_disponible i \<longrightarrow>
      approveLoan d loanId (Some f) now = (d, Inl InsufficientStock)) \<and>
   (\<forall>e. snd (approveLoan d loanId fe now) = Inl e \<longrightarrow> fst (approveLoan d loanId fe now) = d)"
  using approveLoan_failure_frame [of d loanId fe now]
  by (simp add: approveLoan_def)

theorem approveLoan_rejects_witness:
  "findLoan 1 (example_db Aprobado) = Some (example_loan Aprobado) \<and>
   estado (example_loan Aprobado) \<noteq> Pendiente \<and>
   approveLoan (example_db Aprobado) 1 (Some 5000) 4000 = (example_db Aprobado, Inl InvalidState) \<and>
   findLoan 4 (example_db Pendiente) = Some example_big_loan \<and>
   estado example_big_loan = Pendiente \<and>
   findItem (item example_big_loan) (example_db Pendiente) = Some example_item \<and>
   cantidad_prestamo example_big_loan > cantidad_disponible example_item \<and>
   approveLoan (example_db Pendiente) 4 None 4000 = (example_db Pendiente, Inl ValidationError) \<and>
   approveLoan (example_db Pendiente) 4 (Some 5000) 4000 = (example_db Pendiente, Inl InsufficientStock) \<and>
   snd (approveLoan (example_db Pendiente) 4 (Some 5000) 4000) = Inl InsufficientStock \<and>
   fst (approveLoan (example_db Pendiente) 4 (Some 5000) 4000) = example_db Pendiente"
proof -
  have a: "findLoan 1 (example_db Aprobado) = Some (example_loan Aprobado) \<and>
           estado (example_loan Aprobado) \<noteq> Pendiente"
    by (simp add: example_defs)
  have b: "findLoan 4 (example_db Pendiente) = Some example_big_loan \<and>
           estado example_big_loan = Pendiente \<and>
           findItem (item example_big_loan) (example_db Pendiente) = Some example_item \<and>
           cantidad_prestamo example_big_loan > cantidad_disponible example_item"
    by (simp add: example_defs)
  note t1 = approveLoan_rejects [of 1 "example_db Aprobado" "example_loan Aprobado" "Some 5000" 4000]
  note t2 = approveLoan_rejects [of 4 "example_db Pendiente" example_big_loan "Some 5000" 4000
                                    example_item 5000]
  from t2 b have c: "approveLoan (example_db Pendiente) 4 (Some 5000) 4000 =
                       (example_db Pendiente, Inl InsufficientStock)"
    by blast
  then have d: "snd (approveLoan (example_db Pendiente) 4 (Some 5000) 4000) = Inl InsufficientStock"
    by simp
  from t1 t2 a b c d show ?thesis by blast
qed

lemma approveLoan_read_commit:
  "approveLoan d loanId fe now =
     (case approveLoan_read d loanId fe of
        Inl e \<Rightarrow> (d, Inl e)
      | Inr (l, i, f) \<Rightarrow> approveLoan_commit d l i f now)"
  by (simp add: approveLoan_def approveLoan_read_def split: option.splits)

lemma approveLoan_read_guard:
  "approveLoan_read d loanId fe = Inr (l, i, f) \<Longrightarrow>
   findLoan loanId d = Some l \<and> estado l = Pendiente \<and> fe = Some f \<and>
   findItem (item l) d = Some i \<and> cantidad_prestamo l \<le> cantidad_disponible i"
  by (simp add: approveLoan_read_def split: option.splits if_splits)

text \<open>
  Whatever the datastore has become since the first part ran, the second part does not
  enter its unwinding branch: the in-memory item has passed the guard of line 65, so the
  second part approves and saves the stock it computed from that item.
\<close>

lemma approveLoan_commit_after_read:
  assumes "approveLoan_read d loanId fe = Inr (l, i, f)"
  shows "approveLoan_commit d' l i f now =
           (save_item (i\<lparr>cantidad_disponible := cantidad_disponible i - cantidad_prestamo l\<rparr>)
              (save_loan (l\<lparr>estado := Aprobado, fecha_prestamo := Some now,
                            fecha_estimada := Some f\<rparr>) d'),
            Inr (l\<lparr>estado := Aprobado, fecha_prestamo := Some now, fecha_estimada := Some f\<rparr>))"
  using approveLoan_read_guard [OF assms]
  by (simp add: approveLoan_commit_def Let_def)

text \<open>
  C4. The unwinding of lines 77 to 83 is meant for the approval that loses a race for the
  last units: its decrement would take the item's \<^verbatim>\<open>cantidad_disponible\<close> below zero,
  so it should fail with \<open>InsufficientStock\<close> and leave its loan \<open>Pendiente\<close>. The
  code decrements the in-memory item that line 65 has already tested, so the test of line
  77 cannot fail. With one unit available and two pending loans of one unit, both read
  before either writes: both approvals succeed, both loans are stored as \<open>Aprobado\<close>,
  and the item is stored with 0 available, although the second approval met a stored stock
  of 0. The same second approval, made after the first has finished, is refused with
  \<open>InsufficientStock\<close>.
\<close>

theorem approveLoan_race_no_unwind:
  "approveLoan_read race_db 1 (Some 5000) = Inr (race_loan 1 7, race_item, 5000) \<and>
   approveLoan_read race_db 2 (Some 5000) = Inr (race_loan 2 8, race_item, 5000) \<and>
   snd (approveLoan_commit race_db (race_loan 1 7) race_item 5000 4000) =
     Inr ((race_loan 1 7)\<lparr>estado := Aprobado, fecha_prestamo := Some 4000,
                            fecha_estimada := Some 5000\<rparr>) \<and>
   map_option cantidad_disponible (findItem 10 race_after_first) = Some 0 \<and>
   snd (approveLoan_commit race_after_first (race_loan 2 8) race_item 5000 4001) =
     Inr ((race_loan 2 8)\<lparr>estado := Aprobado, fecha_prestamo := Some 4001,
                            fecha_estimada := Some 5000\<rparr>) \<and>
   map_option estado (findLoan 1 race_final) = Some Aprobado \<and>
   map_option estado (findLoan 2 race_final) = Some Aprobado \<and>
   map_option cantidad_disponible (findItem 10 race_final) = Some 0 \<and>
   approveLoan race_after_first 2 (Some 5000) 4001 = (race_after_first, Inl InsufficientStock)"
proof -
  have r1: "approveLoan_read race_db 1 (Some 5000) = Inr (race_loan 1 7, race_item, 5000)"
    and r2: "approveLoan_read race_db 2 (Some 5000) = Inr (race_loan 2 8, race_item, 5000)"
    by (simp_all add: approveLoan_read_def race_db_def race_loan_def race_item_def
        findLoan_def findItem_def)
  note c1 = approveLoan_commit_after_read [OF r1, of race_db 4000]
  have a: "race_after_first =
      save_item (race_item\<lparr>cantidad_disponible := 0\<rparr>)
        (save_loan ((race_loan 1 7)\<lparr>estado := Aprobado, fecha_prestamo := Some 4000,
                                      fecha_estimada := Some 5000\<rparr>) race_db)"
    unfolding race_after_first_def c1 by (simp add: race_item_def race_loan_def)
  note c2 = approveLoan_commit_after_read [OF r2, of race_after_first 4001]
  have b: "race_final =
      save_item (race_item\<lparr>cantidad_disponible := 0\<rparr>)
        (save_loan ((race_loan 2 8)\<lparr>estado := Aprobado, fecha_prestamo := Some 4001,
                                      fecha_estimada := Some 5000\<rparr>) race_after_first)"
    unfolding race_final_def c2 by (simp add: race_item_def race_loan_def)
  have i1: "map_option cantidad_disponible (findItem 10 race_after_first) = Some 0"
    unfolding a by (simp add: save_item_def save_loan_def race_db_def race_item_def findItem_def)
  have l1: "map_option estado (findLoan 1 race_final) = Some Aprobado"
    and l2: "map_option estado (findLoan 2 race_final) = Some Aprobado"
    and i2: "map_option cantidad_disponible (findItem 10 race_final) = Some 0"
    unfolding b a
    by (simp_all add: save_item_def save_loan_def race_db_def race_item_def
        race_loan_def findItem_def findLoan_def)
  have s: "approveLoan race_after_first 2 (Some 5000) 4001 = (race_after_first, Inl InsufficientStock)"
    unfolding a
    by (simp add: approveLoan_def save_item_def save_loan_def race_db_def
        race_item_def race_loan_def findItem_def findLoan_def)
  have s1: "snd (approveLoan_commit race_db (race_loan 1 7) race_item 5000 4000) =
     Inr ((race_loan 1 7)\<lparr>estado := Aprobado, fecha_prestamo := Some 4000,
                            fecha_estimada := Some 5000\<rparr>)"
    by (simp only: c1 snd_conv)
  have s2: "snd (approveLoan_commit race_after_first (race_loan 2 8) race_item 5000 4001) =
     Inr ((race_loan 2 8)\<lparr>estado := Aprobado, fecha_prestamo := Some 4001,
                            fecha_estimada := Some 5000\<rparr>)"
    by (simp only: c2 snd_conv)
  from r1 r2 s1 i1 s2 l1 l2 i2 s show ?thesis
    by (intro conjI)
qed

text \<open>
  C5. \<^verbatim>\<open>returnLoan\<close> on a stored loan in state \<open>Aprobado\<close> or \<open>Aplazado\<close> whose
  item is stored succeeds: the loan returned and stored has state \<open>Devuelto\<close> and
  \<^verbatim>\<open>fecha_retorno\<close> the current time, and the stored item has
  \<^verbatim>\<open>cantidad_disponible\<close> raised by \<^verbatim>\<open>cantidad_prestamo\<close> and capped at
  \<^verbatim>\<open>cantidad_total_stock\<close>. On a loan in state \<open>Pendiente\<close>, \<open>Rechazado\<close> or
  \<open>Devuelto\<close> it fails with \<open>InvalidState\<close> and changes nothing.
\<close>

theorem returnLoan_returns:
  "(findLoan loanId d = Some l \<and> (estado l = Aprobado \<or> estado l = Aplazado) \<and>
    findItem (item l) d = Some i \<longrightarrow>
      snd (returnLoan d loanId now) = Inr (l\<lparr>estado := Devuelto, fecha_retorno := Some now\<rparr>) \<and>
      findLoan loanId (fst (returnLoan d loanId now)) =
        Some (l\<lparr>estado := Devuelto, fecha_retorno := Some now\<rparr>) \<and>
      findItem (item l) (fst (returnLoan d loanId now)) =
        Some (i\<lparr>cantidad_disponible :=
                 min (cantidad_disponible i + cantidad_prestamo l) (cantidad_total_stock i)\<rparr>)) \<and>
   (findLoan loanId d = Some l \<and> estado l \<in> {Pendiente, Rechazado, Devuelto} \<longrightarrow>
      returnLoan d loanId now = (d, Inl InvalidState))"
proof (intro conjI impI)
  assume a: "findLoan loanId d = Some l \<and> (estado l = Aprobado \<or> estado l = Aplazado) \<and>
    findItem (item l) d = Some i"
  then have ids: "loan_id l = loanId" "item_id i = item l"
    using findLoan_id findItem_id by auto
  from a have r: "returnLoan d loanId now =
           (save_item (i\<lparr>cantidad_disponible :=
                          min (cantidad_disponible i + cantidad_prestamo l) (cantidad_total_stock i)\<rparr>)
              (save_loan (l\<lparr>estado := Devuelto, fecha_retorno := Some now\<rparr>) d),
            Inr (l\<lparr>estado := Devuelto, fecha_retorno := Some now\<rparr>))"
    by (intro returnLoan_success) simp_all
  show "snd (returnLoan d loanId now) = Inr (l\<lparr>estado := Devuelto, fecha_retorno := Some now\<rparr>)"
    by (simp add: r)
  show "findLoan loanId (fst (returnLoan d loanId now)) =
        Some (l\<lparr>estado := Devuelto, fecha_retorno := Some now\<rparr>)"
    using a ids by (simp add: r findLoan_save_loan)
  show "findItem (item l) (fst (returnLoan d loanId now)) =
        Some (i\<lparr>cantidad_disponible :=
                 min (cantidad_disponible i + cantidad_prestamo l) (cantidad_total_stock i)\<rparr>)"
    using a ids by (simp add: r findItem_save_item)
next
  assume "findLoan loanId d = Some l \<and> estado l \<in> {Pendiente, Rechazado, Devuelto}"
  then show "returnLoan d loanId now = (d, Inl InvalidState)"
    by (auto simp add: returnLoan_def)
qed

theorem returnLoan_returns_witness:
  "findLoan 1 (example_db Aplazado) = Some (example_loan Aplazado) \<and>
   (estado (example_loan Aplazado) = Aprobado \<or> estado (example_loan Aplazado) = Aplazado) \<and>
   findItem (item (example_loan Aplazado)) (example_db Aplazado) = Some example_item \<and>
   snd (returnLoan (example_db Aplazado) 1 6000) =
     Inr ((example_loan Aplazado)\<lparr>estado := Devuelto, fecha_retorno := Some 6000\<rparr>) \<and>
   findItem (item (example_loan Aplazado)) (fst (returnLoan (example_db Aplazado) 1 6000)) =
     Some (example_item\<lparr>cantidad_disponible := 5\<rparr>) \<and>
   findLoan 3 (example_db Aplazado) \<noteq> None \<and>
   map_option estado (findLoan 3 (example_db Aplazado)) = Some Devuelto \<and>
   returnLoan (example_db Aplazado) 3 6000 = (example_db Aplazado, Inl InvalidState)"
proof -
  have a: "findLoan 1 (example_db Aplazado) = Some (example_loan Aplazado) \<and>
           (estado (example_loan Aplazado) = Aprobado \<or> estado (example_loan Aplazado) = Aplazado) \<and>
           findItem (item (example_loan Aplazado)) (example_db Aplazado) = Some example_item"
    by (simp add: example_defs)
  have m: "min (cantidad_disponible example_item + cantidad_prestamo (example_loan Aplazado))
             (cantidad_total_stock example_item) = 5"
    by (simp add: example_defs)
  obtain l3 where b: "findLoan 3 (example_db Aplazado) = Some l3 \<and>
                      estado l3 \<in> {Pendiente, Rechazado, Devuelto}" and b': "estado l3 = Devuelto"
    by (simp add: example_defs)
  note t1 = returnLoan_returns [of 1 "example_db Aplazado" "example_loan Aplazado" example_item 6000]
  note t2 = returnLoan_returns [of 3 "example_db Aplazado" l3 example_item 6000]
  from t1 a have c: "findItem (item (example_loan Aplazado)) (fst (returnLoan (example_db Aplazado) 1 6000)) =
     Some (example_item\<lparr>cantidad_disponible := 5\<rparr>)"
    unfolding m by blast
  from t1 t2 a b b' c show ?thesis by auto
qed

text \<open>
  C6 as stated claims \<open>ValidationError\<close> for every stored loan when the date is
  missing. On a \<open>Pendiente\<close> loan the state test fires first.
\<close>

theorem delayLoan_no_date_counterexample:
  "findLoan 1 (example_db Pendiente) = Some (example_loan Pendiente) \<and>
   snd (delayLoan (example_db Pendiente) 1 None) = Inl InvalidState \<and>
   snd (delayLoan (example_db Pendiente) 1 None) \<noteq> Inl ValidationError"
  by (simp add: example_defs delayLoan_def)

text \<open>
  C6, as the code has it. \<^verbatim>\<open>delayLoan\<close> tests the state before the date: on a stored
  loan in state \<open>Aprobado\<close> or \<open>Aplazado\<close>, a call with no date fails with
  \<open>ValidationError\<close>; on a stored loan in any other state it fails with
  \<open>InvalidState\<close>, with or without a date. With a date on an \<open>Aprobado\<close> loan it
  succeeds, the loan returned and stored has state \<open>Aplazado\<close> and the given
  \<^verbatim>\<open>fecha_estimada\<close>, and the items are unchanged.
\<close>

theorem delayLoan_defers:
  "(findLoan loanId d = Some l \<and> (estado l = Aprobado \<or> estado l = Aplazado) \<longrightarrow>
      delayLoan d loanId None = (d, Inl ValidationError)) \<and>
   (findLoan loanId d = Some l \<and> estado l \<noteq> Aprobado \<and> estado l \<noteq> Aplazado \<longrightarrow>
      delayLoan d loanId nuevaFecha = (d, Inl InvalidState)) \<and>
   (findLoan loanId d = Some l \<and> estado l = Aprobado \<longrightarrow>
      snd (delayLoan d loanId (Some f)) = Inr (l\<lparr>estado := Aplazado, fecha_estimada := Some f\<rparr>) \<and>
      findLoan loanId (fst (delayLoan d loanId (Some f))) =
        Some (l\<lparr>estado := Aplazado, fecha_estimada := Some f\<rparr>) \<and>
      items (fst (delayLoan d loanId (Some f))) = items d)"
  using findLoan_id [of loanId d l]
  by (auto simp add: delayLoan_def Let_def findLoan_save_loan)

theorem delayLoan_defers_witness:
  "findLoan 1 (example_db Aprobado) = Some (example_loan Aprobado) \<and>
   estado (example_loan Aprobado) = Aprobado \<and>
   delayLoan (example_db Aprobado) 1 None = (example_db Aprobado, Inl ValidationError) \<and>
   snd (delayLoan (example_db Aprobado) 1 (Some 7000)) =
     Inr ((example_loan Aprobado)\<lparr>estado := Aplazado, fecha_estimada := Some 7000\<rparr>) \<and>
   items (fst (delayLoan (example_db Aprobado) 1 (Some 7000))) = items (example_db Aprobado) \<and>
   findLoan 1 (example_db Pendiente) = Some (example_loan Pendiente) \<and>
   estado (example_loan Pendiente) \<noteq> Aprobado \<and> estado (example_loan Pendiente) \<noteq> Aplazado \<and>
   delayLoan (example_db Pendiente) 1 (Some 7000) = (example_db Pendiente, Inl InvalidState)"
proof -
  have a: "findLoan 1 (example_db Aprobado) = Some (example_loan Aprobado) \<and>
           estado (example_loan Aprobado) = Aprobado"
    by (simp add: example_defs)
  have b: "findLoan 1 (example_db Pendiente) = Some (example_loan Pendiente) \<and>
           estado (example_loan Pendiente) \<noteq> Aprobado \<and> estado (example_loan Pendiente) \<noteq> Aplazado"
    by (simp add: example_defs)
  note t1 = delayLoan_defers [of 1 "example_db Aprobado" "example_loan Aprobado" "None" 7000]
  note t2 = delayLoan_defers [of 1 "example_db Pendiente" "example_loan Pendiente" "Some 7000" 7000]
  from t1 t2 a b show ?thesis by blast
qed

section \<open>Reading loans\<close>

lemma listLoans_eq:
  "listLoans d caller filtro =
     map (populate d) (sort_createdAt_desc
       (filter (\<lambda>l. (rol caller = ''Admin'' \<or> usuario l = user_id caller) \<and>
                     (case filtro of None \<Rightarrow> True | Some e \<Rightarrow> estado l = e)) (loans d)))"
proof -
  have m: "matches q = (\<lambda>l. (case q_usuario q of None \<Rightarrow> True | Some u \<Rightarrow> usuario l = u) \<and>
                          (case q_estado q of None \<Rightarrow> True | Some e \<Rightarrow> estado l = e))" for q
    by (rule ext) (simp add: matches_def)
  show ?thesis
    by (cases filtro) (simp_all add: listLoans_def m Let_def)
qed

lemma p_loan_populate [simp]: "p_loan (populate d l) = l"
  by (simp add: populate_def)

lemma set_sort_createdAt_desc [simp]: "set (sort_createdAt_desc ls) = set ls"
  by (simp add: sort_createdAt_desc_def)

lemma sorted_sort_createdAt_desc:
  "sorted_wrt (\<lambda>a b. createdAt b \<le> createdAt a) (sort_createdAt_desc ls)"
proof -
  have "sorted (map (\<lambda>l. - createdAt l) (sort_key (\<lambda>l. - createdAt l) ls))"
    by (rule sorted_sort_key)
  then show ?thesis
    by (simp add: sort_createdAt_desc_def sorted_wrt_map)
qed

lemma filter_sort_createdAt_desc:
  "filter P (sort_createdAt_desc ls) = sort_createdAt_desc (filter P ls)"
  by (simp add: sort_createdAt_desc_def filter_sort)

lemma findUser_id: "findUser k d = Some u \<Longrightarrow> user_id u = k"
  unfolding findUser_def by (drule find_key) simp

text \<open>
  C7. For a caller whose \<^verbatim>\<open>rol\<close> is not \<^verbatim>\<open>Admin\<close>, \<^verbatim>\<open>listLoans\<close> returns
  loans of the caller only, and all of them that pass the filter. For every caller the
  result is ordered by \<^verbatim>\<open>createdAt\<close>, newest first, and the result with a state filter
  is the result without it restricted to the loans in that state. \<^verbatim>\<open>getLoanById\<close> on
  a stored loan whose borrower is a stored user fails with \<open>Forbidden\<close> for a caller
  who is neither an administrator nor the borrower, and returns the populated loan to an
  administrator and to the borrower.
\<close>

theorem read_access:
  "(rol caller \<noteq> ''Admin'' \<longrightarrow>
      (\<forall>p \<in> set (listLoans d caller filtro). usuario (p_loan p) = user_id caller) \<and>
      set (map p_loan (listLoans d caller filtro)) =
        {l \<in> set (loans d). usuario l = user_id caller \<and>
                             (case filtro of None \<Rightarrow> True | Some e \<Rightarrow> estado l = e)}) \<and>
   sorted_wrt (\<lambda>p q. createdAt (p_loan q) \<le> createdAt (p_loan p)) (listLoans d caller filtro) \<and>
   listLoans d caller (Some e) = filter (\<lambda>p. estado (p_loan p) = e) (listLoans d caller None) \<and>
   (findLoan loanId d = Some l \<and> findUser (usuario l) d = Some u \<and>
    rol caller \<noteq> ''Admin'' \<and> usuario l \<noteq> user_id caller \<longrightarrow>
      getLoanById d caller loanId = Inl Forbidden) \<and>
   (findLoan loanId d = Some l \<and>
    (rol caller = ''Admin'' \<or> (findUser (usuario l) d = Some u \<and> usuario l = user_id caller)) \<longrightarrow>
      getLoanById d caller loanId = Inr (populate d l))"
proof (intro conjI impI ballI)
  fix p assume "rol caller \<noteq> ''Admin''" "p \<in> set (listLoans d caller filtro)"
  then show "usuario (p_loan p) = user_id caller"
    by (auto simp add: listLoans_eq)
next
  assume "rol caller \<noteq> ''Admin''"
  then show "set (map p_loan (listLoans d caller filtro)) =
        {l \<in> set (loans d). usuario l = user_id caller \<and>
                             (case filtro of None \<Rightarrow> True | Some e \<Rightarrow> estado l = e)}"
    by (auto simp add: listLoans_eq image_iff)
next
  show "sorted_wrt (\<lambda>p q. createdAt (p_loan q) \<le> createdAt (p_loan p)) (listLoans d caller filtro)"
    using sorted_sort_createdAt_desc
    by (simp add: listLoans_eq sorted_wrt_map)
next
  show "listLoans d caller (Some e) = filter (\<lambda>p. estado (p_loan p) = e) (listLoans d caller None)"
    by (simp add: listLoans_eq filter_map o_def filter_sort_createdAt_desc conj_commute)
next
  assume a: "findLoan loanId d = Some l \<and> findUser (usuario l) d = Some u \<and>
    rol caller \<noteq> ''Admin'' \<and> usuario l \<noteq> user_id caller"
  then have "user_id u = usuario l" using findUser_id by blast
  with a show "getLoanById d caller loanId = Inl Forbidden"
    by (simp add: getLoanById_def populate_def)
next
  assume a: "findLoan loanId d = Some l \<and>
    (rol caller = ''Admin'' \<or> (findUser (usuario l) d = Some u \<and> usuario l = user_id caller))"
  show "getLoanById d caller loanId = Inr (populate d l)"
  proof (cases "rol caller = ''Admin''")
    case True
    with a show ?thesis by (simp add: getLoanById_def)
  next
    case False
    with a have f: "findUser (usuario l) d = Some u" and o: "usuario l = user_id caller" by auto
    from f have "user_id u = usuario l" by (rule findUser_id)
    with a False f o show ?thesis
      by (simp add: getLoanById_def populate_def)
  qed
qed

lemmas example_defs2 = example_defs listLoans_eq getLoanById_def populate_def
  sort_createdAt_desc_def

theorem read_access_witness:
  "rol (example_users ! 0) \<noteq> ''Admin'' \<and>
   map (loan_id \<circ> p_loan) (listLoans (example_db Aprobado) (example_users ! 0) None) = [3, 1] \<and>
   list_all (\<lambda>p. usuario (p_loan p) = 7) (listLoans (example_db Aprobado) (example_users ! 0) None) \<and>
   map (loan_id \<circ> p_loan) (listLoans (example_db Aprobado) (example_users ! 0) (Some Aprobado)) = [1] \<and>
   findLoan 2 (example_db Aprobado) \<noteq> None \<and>
   getLoanById (example_db Aprobado) (example_users ! 0) 2 = Inl Forbidden \<and>
   getLoanById (example_db Aprobado) (example_users ! 0) 1 =
     Inr (populate (example_db Aprobado) (example_loan Aprobado)) \<and>
   getLoanById (example_db Aprobado) (example_users ! 3) 1 =
     Inr (populate (example_db Aprobado) (example_loan Aprobado))"
proof -
  let ?d = "example_db Aprobado" and ?c = "example_users ! 0"
  have c: "rol ?c \<noteq> ''Admin''" and cid: "user_id ?c = 7" and adm: "rol (example_users ! 3) = ''Admin''"
    by (simp_all add: example_users_def)
  obtain l2 u2 where l2: "findLoan 2 ?d = Some l2" "findUser (usuario l2) ?d = Some u2"
    "usuario l2 \<noteq> user_id ?c"
    by (simp add: example_defs)
  have l1: "findLoan 1 ?d = Some (example_loan Aprobado)"
    "findUser (usuario (example_loan Aprobado)) ?d = Some ?c"
    "usuario (example_loan Aprobado) = user_id ?c"
    by (simp_all add: example_defs)
  note t0 = read_access [of ?c ?d None Aprobado 2 l2 u2]
  note t1 = read_access [of ?c ?d None Aprobado 1 "example_loan Aprobado" ?c]
  note t2 = read_access [of "example_users ! 3" ?d None Aprobado 1 "example_loan Aprobado" ?c]
  have all: "list_all (\<lambda>p. usuario (p_loan p) = 7) (listLoans ?d ?c None)"
    using t0 c cid by (simp only: list_all_iff) simp
  have ls: "map (loan_id \<circ> p_loan) (listLoans ?d ?c None) = [3, 1]"
    by (simp add: example_defs2)
  have fl: "map (loan_id \<circ> p_loan) (listLoans ?d ?c (Some Aprobado)) = [1]"
    using t0 by (simp add: example_defs2)
  from t0 t1 t2 c adm l1 l2 all ls fl show ?thesis by simp
qed

section \<open>Deleting loans\<close>

text \<open>
  C8. \<^verbatim>\<open>deleteLoan\<close> on a stored loan, in whatever state, returns it and removes it;
  the other loans stay. The items afterwards are the items before, and the outcome does
  not depend on the items: with any other list of items in the datastore the call gives
  the same result and leaves that list as it is. It fails only with \<open>NotFound\<close>, and
  exactly when no loan has the given id.
\<close>

theorem deleteLoan_frame:
  "(findLoan loanId d = Some l \<longrightarrow>
      snd (deleteLoan d loanId) = Inr l \<and> findLoan loanId (fst (deleteLoan d loanId)) = None) \<and>
   (\<forall>k. k \<noteq> loanId \<longrightarrow> findLoan k (fst (deleteLoan d loanId)) = findLoan k d) \<and>
   items (fst (deleteLoan d loanId)) = items d \<and>
   (\<forall>its. deleteLoan (d\<lparr>items := its\<rparr>) loanId =
      ((fst (deleteLoan d loanId))\<lparr>items := its\<rparr>, snd (deleteLoan d loanId))) \<and>
   (findLoan loanId d = None \<longrightarrow> deleteLoan d loanId = (d, Inl NotFound)) \<and>
   (\<forall>e. snd (deleteLoan d loanId) = Inl e \<longrightarrow> e = NotFound \<and> findLoan loanId d = None)"
  by (auto simp add: deleteLoan_def findLoan_def find_filter_other split: option.splits)

theorem deleteLoan_frame_witness:
  "findLoan 1 (example_db Aprobado) = Some (example_loan Aprobado) \<and>
   snd (deleteLoan (example_db Aprobado) 1) = Inr (example_loan Aprobado) \<and>
   findLoan 1 (fst (deleteLoan (example_db Aprobado) 1)) = None \<and>
   findLoan 2 (fst (deleteLoan (example_db Aprobado) 1)) = findLoan 2 (example_db Aprobado) \<and>
   items (fst (deleteLoan (example_db Aprobado) 1)) = [example_item] \<and>
   findLoan 99 (example_db Aprobado) = None \<and>
   deleteLoan (example_db Aprobado) 99 = (example_db Aprobado, Inl NotFound)"
proof -
  have a: "findLoan 1 (example_db Aprobado) = Some (example_loan Aprobado)"
    and b: "findLoan 99 (example_db Aprobado) = None"
    and c: "items (example_db Aprobado) = [example_item]"
    and n: "(2::nat) \<noteq> 1"
    by (simp_all add: example_defs example_big_loan_def)
  note t1 = deleteLoan_frame [of 1 "example_db Aprobado" "example_loan Aprobado"]
  note t2 = deleteLoan_frame [of 99 "example_db Aprobado" "example_loan Aprobado"]
  from t1 t2 a b n show ?thesis unfolding c by blast
qed

section \<open>Sending mail\<close>

lemma attempts_simps [simp]:
  "attempts [] = 0"
  "attempts (Send t r # evs) = Suc (attempts evs)"
  "attempts (Wait w # evs) = attempts evs"
  "attempts (evs @ evs') = attempts evs + attempts evs'"
  by (simp_all add: attempts_def)

lemma pauses_simps [simp]:
  "pauses [] = []"
  "pauses (Send t r # evs) = pauses evs"
  "pauses (Wait w # evs) = w # pauses evs"
  "pauses (evs @ evs') = pauses evs @ pauses evs'"
  by (simp_all add: pauses_def)

lemma try_send_events:
  "snd (try_send e out m) = [] \<or>
   (\<exists>t. to m = Some t \<and> t \<noteq> [] \<and> str_includes t ''@'' \<and>
        snd (try_send e out m) = [Send t (getRecipient e t)])"
  by (simp add: try_send_def Let_def split: option.splits send_outcome.splits)

lemma try_send_attempts: "attempts (snd (try_send e out m)) \<le> 1"
  using try_send_events [of e out m] by auto

lemma try_send_pauses: "pauses (snd (try_send e out m)) = []"
  using try_send_events [of e out m] by auto

lemma sendEmail_cases [case_names ok stop retry]:
  obtains
    mid evs where "try_send e (api k) m = (Inr mid, evs)"
      and "sendEmail e api k m n = (\<lparr>success = True, messageId = Some mid, error_message = None\<rparr>, evs)"
  | x evs where "try_send e (api k) m = (Inl x, evs)" and "n = 0 \<or> \<not> retryable x"
      and "sendEmail e api k m n =
             (\<lparr>success = False, messageId = None, error_message = Some (message x)\<rparr>, evs)"
  | x evs where "try_send e (api k) m = (Inl x, evs)" and "0 < n" and "retryable x"
      and "sendEmail e api k m n =
             (fst (sendEmail e api (k + 1) m (n - 1)),
              evs @ Wait 2000 # snd (sendEmail e api (k + 1) m (n - 1)))"
proof -
  obtain r evs where t: "try_send e (api k) m = (r, evs)" by (cases "try_send e (api k) m")
  show thesis
  proof (cases r)
    case (Inr mid)
    with t that(1) show thesis by (simp add: sendEmail.simps [of e api k m n])
  next
    case (Inl x)
    show thesis
    proof (cases "0 < n \<and> retryable x")
      case True
      with t Inl that(3) show thesis
        by (simp add: sendEmail.simps [of e api k m n] split_beta)
    next
      case False
      with t Inl that(2) show thesis
        by (simp add: sendEmail.simps [of e api k m n])
    qed
  qed
qed

lemma sendEmail_attempts: "attempts (snd (sendEmail e api k m n)) \<le> n + 1"
proof (induction n arbitrary: k)
  case 0
  show ?case
    using try_send_attempts [of e "api k" m]
    by (cases rule: sendEmail_cases [of e api k m 0]) simp_all
next
  case (Suc n)
  show ?case
    using try_send_attempts [of e "api k" m] Suc.IH [of "k + 1"]
    by (cases rule: sendEmail_cases [of e api k m "Suc n"]) simp_all
qed

lemma sendEmail_pauses:
  "set (pauses (snd (sendEmail e api k m n))) \<subseteq> {2000} \<and>
   length (pauses (snd (sendEmail e api k m n))) \<le> n"
proof (induction n arbitrary: k)
  case 0
  show ?case
    using try_send_pauses [of e "api k" m]
    by (cases rule: sendEmail_cases [of e api k m 0]) simp_all
next
  case (Suc n)
  show ?case
    using try_send_pauses [of e "api k" m] Suc.IH [of "k + 1"]
    by (cases rule: sendEmail_cases [of e api k m "Suc n"]) simp_all
qed

lemma sendEmail_all_fail:
  "(\<And>j. j \<le> n \<Longrightarrow> isl (fst (try_send e (api (k + j)) m))) \<Longrightarrow>
   \<not> success (fst (sendEmail e api k m n))"
proof (induction n arbitrary: k)
  case 0
  from "0.prems" [of 0] show ?case
    by (cases rule: sendEmail_cases [of e api k m 0]) simp_all
next
  case (Suc n)
  have "isl (fst (try_send e (api (k + 1 + j)) m))" if "j \<le> n" for j
    using Suc.prems [of "Suc j"] that by simp
  then have ih: "\<not> success (fst (sendEmail e api (k + 1) m n))"
    by (rule Suc.IH)
  from Suc.prems [of 0] ih show ?case
    by (cases rule: sendEmail_cases [of e api k m "Suc n"]) simp_all
qed

lemma sendEmail_result:
  "(\<exists>mid. fst (sendEmail e api k m n) =
            \<lparr>success = True, messageId = Some mid, error_message = None\<rparr>) \<or>
   (\<exists>msg. fst (sendEmail e api k m n) =
            \<lparr>success = False, messageId = None, error_message = Some msg\<rparr>)"
proof (induction n arbitrary: k)
  case 0
  show ?case
    by (cases rule: sendEmail_cases [of e api k m 0]) simp_all
next
  case (Suc n)
  show ?case
  proof (cases rule: sendEmail_cases [of e api k m "Suc n"])
    case (retry x evs)
    then have "fst (sendEmail e api k m (Suc n)) = fst (sendEmail e api (k + 1) m n)"
      by simp
    then show ?thesis using Suc.IH [of "k + 1"] by simp
  qed simp_all
qed

text \<open>
  C9. Every exit of \<^verbatim>\<open>sendEmail\<close> returns a result object: either
  \<^verbatim>\<open>success: true\<close> with a message id or \<^verbatim>\<open>success: false\<close> with an error text.
  It calls the provider at most \<open>retries + 1\<close> times, 3 times for the default 2. It
  pauses at most \<open>retries\<close> times and every pause is 2000 ms. An attempt that succeeds
  ends the call with success. A failed attempt whose error has neither
  \<^verbatim>\<open>statusCode\<close> 429 nor \<^verbatim>\<open>code\<close> \<^verbatim>\<open>ETIMEDOUT\<close>, or that comes when no
  retries are left, ends the call with \<^verbatim>\<open>success: false\<close>; otherwise the call pauses and
  goes on with one retry less. When every attempt fails the result is
  \<^verbatim>\<open>success: false\<close>.
\<close>

theorem sendEmail_retries:
  "attempts (snd (sendEmail e api k m retries)) \<le> retries + 1 \<and>
   attempts (snd (sendEmail_default e api m)) \<le> 3 \<and>
   set (pauses (snd (sendEmail e api k m retries))) \<subseteq> {2000} \<and>
   length (pauses (snd (sendEmail e api k m retries))) \<le> retries \<and>
   (try_send e (api k) m = (Inl x, evs) \<and> (retries = 0 \<or> \<not> retryable x) \<longrightarrow>
      sendEmail e api k m retries =
        (\<lparr>success = False, messageId = None, error_message = Some (message x)\<rparr>, evs)) \<and>
   (try_send e (api k) m = (Inl x, evs) \<and> 0 < retries \<and> retryable x \<longrightarrow>
      sendEmail e api k m retries =
        (fst (sendEmail e api (k + 1) m (retries - 1)),
         evs @ Wait 2000 # snd (sendEmail e api (k + 1) m (retries - 1)))) \<and>
   (try_send e (api k) m = (Inr mid, evs) \<longrightarrow>
      sendEmail e api k m retries =
        (\<lparr>success = True, messageId = Some mid, error_message = None\<rparr>, evs)) \<and>
   ((\<forall>j \<le> retries. isl (fst (try_send e (api (k + j)) m))) \<longrightarrow>
      \<not> success (fst (sendEmail e api k m retries))) \<and>
   ((\<exists>mid. fst (sendEmail e api k m retries) =
             \<lparr>success = True, messageId = Some mid, error_message = None\<rparr>) \<or>
    (\<exists>msg. fst (sendEmail e api k m retries) =
             \<lparr>success = False, messageId = None, error_message = Some msg\<rparr>))"
proof (intro conjI impI)
  show "attempts (snd (sendEmail e api k m retries)) \<le> retries + 1"
    by (rule sendEmail_attempts)
  show "attempts (snd (sendEmail_default e api m)) \<le> 3"
    using sendEmail_attempts [of e api 0 m 2] by (simp add: sendEmail_default_def)
  show "set (pauses (snd (sendEmail e api k m retries))) \<subseteq> {2000}"
    and "length (pauses (snd (sendEmail e api k m retries))) \<le> retries"
    using sendEmail_pauses [of e api k m retries] by simp_all
  show "sendEmail e api k m retries =
        (\<lparr>success = False, messageId = None, error_message = Some (message x)\<rparr>, evs)"
    if "try_send e (api k) m = (Inl x, evs) \<and> (retries = 0 \<or> \<not> retryable x)"
    using that by (cases rule: sendEmail_cases [of e api k m retries]) auto
  show "sendEmail e api k m retries =
        (fst (sendEmail e api (k + 1) m (retries - 1)),
         evs @ Wait 2000 # snd (sendEmail e api (k + 1) m (retries - 1)))"
    if "try_send e (api k) m = (Inl x, evs) \<and> 0 < retries \<and> retryable x"
    using that by (cases rule: sendEmail_cases [of e api k m retries]) auto
  show "sendEmail e api k m retries =
        (\<lparr>success = True, messageId = Some mid, error_message = None\<rparr>, evs)"
    if "try_send e (api k) m = (Inr mid, evs)"
    using that by (cases rule: sendEmail_cases [of e api k m retries]) auto
  show "\<not> success (fst (sendEmail e api k m retries))"
    if "\<forall>j \<le> retries. isl (fst (try_send e (api (k + j)) m))"
    using that by (intro sendEmail_all_fail) simp
  show "(\<exists>mid. fst (sendEmail e api k m retries) =
             \<lparr>success = True, messageId = Some mid, error_message = None\<rparr>) \<or>
    (\<exists>msg. fst (sendEmail e api k m retries) =
             \<lparr>success = False, messageId = None, error_message = Some msg\<rparr>)"
    by (rule sendEmail_result)
qed

lemmas example_mail_defs = example_env_def example_mail_def rate_limited_def api_error_def
  delivered_def try_send_def retryable_def new_Error_def

theorem sendEmail_retries_witness:
  "try_send example_env (rate_limited 0) example_mail =
     (Inl \<lparr>message = ''Too many requests'', statusCode = Some 429, code = None\<rparr>,
      [Send ''jefe@sena.edu.co'' (getRecipient example_env ''jefe@sena.edu.co'')]) \<and>
   retryable \<lparr>message = ''Too many requests'', statusCode = Some 429, code = None\<rparr> \<and>
   isl (fst (try_send example_env (rate_limited 0) example_mail)) \<and>
   isl (fst (try_send example_env (rate_limited 1) example_mail)) \<and>
   isl (fst (try_send example_env (rate_limited 2) example_mail)) \<and>
   \<not> success (fst (sendEmail example_env rate_limited 0 example_mail 2)) \<and>
   attempts (snd (sendEmail example_env rate_limited 0 example_mail 2)) = 3 \<and>
   pauses (snd (sendEmail example_env rate_limited 0 example_mail 2)) = [2000, 2000] \<and>
   try_send example_env (api_error 0) example_mail =
     (Inl (new_Error ''Resend error: Invalid API key''),
      [Send ''jefe@sena.edu.co'' (getRecipient example_env ''jefe@sena.edu.co'')]) \<and>
   \<not> retryable (new_Error ''Resend error: Invalid API key'') \<and>
   sendEmail example_env api_error 0 example_mail 2 =
     (\<lparr>success = False, messageId = None,
       error_message = Some ''Resend error: Invalid API key''\<rparr>,
      [Send ''jefe@sena.edu.co'' (getRecipient example_env ''jefe@sena.edu.co'')]) \<and>
   try_send example_env (delivered 0) example_mail =
     (Inr ''msg-1'', [Send ''jefe@sena.edu.co'' (getRecipient example_env ''jefe@sena.edu.co'')]) \<and>
   sendEmail example_env delivered 0 example_mail 2 =
     (\<lparr>success = True, messageId = Some ''msg-1'', error_message = None\<rparr>,
      [Send ''jefe@sena.edu.co'' (getRecipient example_env ''jefe@sena.edu.co'')])"
proof -
  let ?x = "\<lparr>message = ''Too many requests'', statusCode = Some 429, code = None\<rparr>"
  let ?s = "[Send ''jefe@sena.edu.co'' (getRecipient example_env ''jefe@sena.edu.co'')]"
  have a: "try_send example_env (rate_limited k) example_mail = (Inl ?x, ?s)" for k
    by (simp add: example_mail_defs)
  have r: "retryable ?x" by (simp add: retryable_def)
  have f: "\<forall>j \<le> 2. isl (fst (try_send example_env (rate_limited (0 + j)) example_mail))"
    by (simp add: a)
  have b: "try_send example_env (api_error 0) example_mail =
             (Inl (new_Error ''Resend error: Invalid API key''), ?s)"
    and nr: "\<not> retryable (new_Error ''Resend error: Invalid API key'')"
    by (simp_all add: example_mail_defs)
  have c: "try_send example_env (delivered 0) example_mail = (Inr ''msg-1'', ?s)"
    by (simp add: example_mail_defs)
  note t0 = sendEmail_retries [of example_env rate_limited 0 example_mail 2 ?x ?s]
  note t3 = sendEmail_retries [of example_env api_error 0 example_mail 2
                                  "new_Error ''Resend error: Invalid API key''" ?s]
  note t4 = sendEmail_retries [of example_env delivered 0 example_mail 2 _ ?s "''msg-1''"]
  have e0: "snd (sendEmail example_env rate_limited 0 example_mail 2) =
              ?s @ Wait 2000 # ?s @ Wait 2000 # ?s"
    by (simp add: sendEmail.simps a r)
  have n: "\<not> success (fst (sendEmail example_env rate_limited 0 example_mail 2))"
    using t0 f by blast
  have at: "attempts (snd (sendEmail example_env rate_limited 0 example_mail 2)) = 3"
    and pa: "pauses (snd (sendEmail example_env rate_limited 0 example_mail 2)) = [2000, 2000]"
    unfolding e0 by (simp_all add: attempts_def pauses_def)
  have s3: "sendEmail example_env api_error 0 example_mail 2 =
     (\<lparr>success = False, messageId = None,
       error_message = Some ''Resend error: Invalid API key''\<rparr>, ?s)"
    using t3 b nr by (simp add: new_Error_def)
  have s4: "sendEmail example_env delivered 0 example_mail 2 =
     (\<lparr>success = True, messageId = Some ''msg-1'', error_message = None\<rparr>, ?s)"
    using t4 c by blast
  from a [of 0] a [of 1] a [of 2] r n at pa b nr s3 c s4 show ?thesis by simp
qed

section \<open>Notifying the administrators\<close>

lemma str_includes_sublist: "str_includes s t \<longleftrightarrow> sublist t s"
proof (induction s)
  case Nil
  show ?case by auto
next
  case (Cons c s)
  show ?case
    unfolding str_includes.simps Cons.IH
    by (cases t) (auto simp add: sublist_Cons_right)
qed

lemma sendEmail_events:
  "ev \<in> set (snd (sendEmail e api k m n)) \<Longrightarrow>
   ev = Wait 2000 \<or> (\<exists>t. to m = Some t \<and> ev = Send t (getRecipient e t))"
proof (induction n arbitrary: k)
  case 0
  then show ?case
    using try_send_events [of e "api k" m]
    by (cases rule: sendEmail_cases [of e api k m 0]) auto
next
  case (Suc n)
  show ?case
  proof (cases rule: sendEmail_cases [of e api k m "Suc n"])
    case (retry x evs)
    with Suc.prems have "ev \<in> set evs \<or> ev = Wait 2000 \<or> ev \<in> set (snd (sendEmail e api (k + 1) m n))"
      by auto
    then show ?thesis
      using try_send_events [of e "api k" m] retry(1) Suc.IH [of "k + 1"] by auto
  next
    case (ok mid evs)
    then show ?thesis using Suc.prems try_send_events [of e "api k" m] by auto
  next
    case (stop x evs)
    then show ?thesis using Suc.prems try_send_events [of e "api k" m] by auto
  qed
qed

lemma validAdmin_email:
  "validAdmin u \<Longrightarrow> \<exists>a. email u = Some a \<and> str_includes a ''@'' \<and>
      \<not> str_includes a ''demo.com'' \<and> \<not> str_includes a ''test.com''"
  by (cases "email u") (simp_all add: validAdmin_def split: if_splits)

lemma notify_events:
  assumes "Send t r \<in> set (snd (notifyAdminsNewLoan e api d))"
  shows "\<exists>u \<in> set (validAdmins d). email u = Some t"
proof -
  from assms obtain n u where nu: "(n, u) \<in> set (enumerate 0 (validAdmins d))"
    and ev: "Send t r \<in> set (snd (sendEmail_default e (api n)
               \<lparr>to = email u, subject = ''Nueva Solicitud de Prestamo''\<rparr>))"
    by (auto simp add: notifyAdminsNewLoan_def Let_def split: if_splits)
  from nu have "u \<in> set (validAdmins d)"
    by (auto simp add: in_set_enumerate_eq)
  moreover from ev have "email u = Some t"
    unfolding sendEmail_default_def by (auto dest: sendEmail_events)
  ultimately show ?thesis by blast
qed

text \<open>
  C10. An administrator whose address contains \<^verbatim>\<open>demo.com\<close> or \<^verbatim>\<open>test.com\<close> is
  not among the administrators that \<^verbatim>\<open>notifyAdminsNewLoan\<close> writes to, although the
  address contains \<^verbatim>\<open>@\<close>, and no mail is sent for that address. Every address a mail
  is sent for contains \<^verbatim>\<open>@\<close> and neither of the two substrings. When no administrator
  is left after the filter, the function returns \<^verbatim>\<open>success: false\<close> and sends nothing.
\<close>

theorem notifyAdmins_skips_demo:
  "(u \<in> set (users d) \<and> rol u = ''Admin'' \<and> email u = Some a \<and> str_includes a ''@'' \<and>
    (str_includes a ''demo.com'' \<or> str_includes a ''test.com'') \<longrightarrow>
      u \<notin> set (validAdmins d) \<and>
      (\<forall>r. Send a r \<notin> set (snd (notifyAdminsNewLoan e api d)))) \<and>
   (Send t r \<in> set (snd (notifyAdminsNewLoan e api d)) \<longrightarrow>
      str_includes t ''@'' \<and> \<not> str_includes t ''demo.com'' \<and> \<not> str_includes t ''test.com'') \<and>
   (validAdmins d = [] \<longrightarrow>
      \<not> n_success (fst (notifyAdminsNewLoan e api d)) \<and>
      snd (notifyAdminsNewLoan e api d) = [])"
proof (intro conjI impI allI)
  assume a: "u \<in> set (users d) \<and> rol u = ''Admin'' \<and> email u = Some a \<and> str_includes a ''@'' \<and>
    (str_includes a ''demo.com'' \<or> str_includes a ''test.com'')"
  then have "\<not> validAdmin u" by (auto simp add: validAdmin_def)
  then show "u \<notin> set (validAdmins d)" by (simp add: validAdmins_def)
  fix r'
  show "Send a r' \<notin> set (snd (notifyAdminsNewLoan e api d))"
  proof
    assume "Send a r' \<in> set (snd (notifyAdminsNewLoan e api d))"
    then obtain v where "v \<in> set (validAdmins d)" "email v = Some a"
      using notify_events by blast
    then show False using a validAdmin_email [of v] by (auto simp add: validAdmins_def)
  qed
next
  assume "Send t r \<in> set (snd (notifyAdminsNewLoan e api d))"
  then obtain v where v: "v \<in> set (validAdmins d)" "email v = Some t"
    using notify_events by blast
  then have "validAdmin v" by (simp add: validAdmins_def)
  with v(2) validAdmin_email [of v]
  show "str_includes t ''@''" and "\<not> str_includes t ''demo.com''" and "\<not> str_includes t ''test.com''"
    by auto
next
  assume "validAdmins d = []"
  then show "\<not> n_success (fst (notifyAdminsNewLoan e api d))"
    and "snd (notifyAdminsNewLoan e api d) = []"
    by (simp_all add: notifyAdminsNewLoan_def Let_def)
qed

lemmas example_admin_defs = example_db_def example_users_def validAdmins_def validAdmin_def

theorem notifyAdmins_skips_demo_witness:
  "example_users ! 2 \<in> set (users (example_db Pendiente)) \<and>
   rol (example_users ! 2) = ''Admin'' \<and>
   email (example_users ! 2) = Some ''admin@demo.com'' \<and>
   str_includes ''admin@demo.com'' ''@'' \<and>
   str_includes ''admin@demo.com'' ''demo.com'' \<and>
   example_users ! 2 \<notin> set (validAdmins (example_db Pendiente)) \<and>
   map user_id (validAdmins (example_db Pendiente)) = [11] \<and>
   Send ''jefe@sena.edu.co'' (getRecipient example_env ''jefe@sena.edu.co'')
     \<in> set (snd (notifyAdminsNewLoan example_env (\<lambda>n. delivered) (example_db Pendiente))) \<and>
   \<not> str_includes ''jefe@sena.edu.co'' ''demo.com'' \<and>
   \<not> str_includes ''jefe@sena.edu.co'' ''test.com'' \<and>
   validAdmins ((example_db Pendiente)\<lparr>users := [example_users ! 2]\<rparr>) = [] \<and>
   \<not> n_success (fst (notifyAdminsNewLoan example_env (\<lambda>n. delivered)
                       ((example_db Pendiente)\<lparr>users := [example_users ! 2]\<rparr>))) \<and>
   snd (notifyAdminsNewLoan example_env (\<lambda>n. delivered)
          ((example_db Pendiente)\<lparr>users := [example_users ! 2]\<rparr>)) = []"
proof -
  let ?d = "example_db Pendiente" and ?u = "example_users ! 2"
  let ?d2 = "(example_db Pendiente)\<lparr>users := [example_users ! 2]\<rparr>"
  let ?ev = "Send ''jefe@sena.edu.co'' (getRecipient example_env ''jefe@sena.edu.co'')"
  have a: "?u \<in> set (users ?d) \<and> rol ?u = ''Admin'' \<and> email ?u = Some ''admin@demo.com'' \<and>
           str_includes ''admin@demo.com'' ''@'' \<and>
           (str_includes ''admin@demo.com'' ''demo.com'' \<or> str_includes ''admin@demo.com'' ''test.com'')"
    and a': "str_includes ''admin@demo.com'' ''demo.com''"
    by (simp_all add: example_admin_defs)
  have v: "map user_id (validAdmins ?d) = [11]"
    by (simp add: example_admin_defs)
  have v2: "validAdmins ?d2 = []"
    by (simp add: example_admin_defs)
  have s: "sendEmail example_env delivered 0 \<lparr>to = Some ''jefe@sena.edu.co'',
              subject = ''Nueva Solicitud de Prestamo''\<rparr> 2 =
           (\<lparr>success = True, messageId = Some ''msg-1'', error_message = None\<rparr>, [?ev])"
    by (simp add: sendEmail.simps example_env_def delivered_def try_send_def)
  have ev: "?ev \<in> set (snd (notifyAdminsNewLoan example_env (\<lambda>n. delivered) ?d))"
    by (simp add: notifyAdminsNewLoan_def example_admin_defs sendEmail_default_def s Let_def)
  note t1 = notifyAdmins_skips_demo [of ?u ?d "''admin@demo.com''" example_env "\<lambda>n. delivered"
               "''jefe@sena.edu.co''" "getRecipient example_env ''jefe@sena.edu.co''"]
  note t2 = notifyAdmins_skips_demo [of ?u ?d2 "''admin@demo.com''" example_env "\<lambda>n. delivered"
               "''jefe@sena.edu.co''" "getRecipient example_env ''jefe@sena.edu.co''"]
  from t1 a have n: "?u \<notin> set (validAdmins ?d)" by blast
  from t1 ev have c: "\<not> str_includes ''jefe@sena.edu.co'' ''demo.com'' \<and>
                      \<not> str_includes ''jefe@sena.edu.co'' ''test.com''" by blast
  from t2 v2 have e: "\<not> n_success (fst (notifyAdminsNewLoan example_env (\<lambda>n. delivered) ?d2)) \<and>
      snd (notifyAdminsNewLoan example_env (\<lambda>n. delivered) ?d2) = []" by blast
  from a a' n v ev c v2 e show ?thesis by blast
qed

end
